theory Spec2Isabelle
  imports Main "HOL-Library.Char_ord" "HOL-Library.List_Lexorder"
begin

section \<open>JSON values\<close>

text \<open>
  The transports hand byte bodies to \<^verbatim>\<open>encoding/json\<close>. A body is modelled by its
  parse: \<open>None\<close> for bytes that are not valid JSON, \<open>Some j\<close> for the JSON value they
  spell. Object members are kept in document order (duplicates allowed); member names
  are held in the form the decoder matches them in (it ignores letter case, so the names
  here are the lower-case ones of the struct tags). Numbers are the integer literals;
  a literal with a fraction or an exponent is not representable and would be refused by
  every integer field below.
\<close>

datatype json =
    JNull
  | JBool bool
  | JNum int
  | JStr string
  | JArr "json list"
  | JObj "(string \<times> json) list"

type_synonym body = "json option"

section \<open>Message model (transport/types.go)\<close>

type_synonym RequestId = int

text \<open>
  \<^verbatim>\<open>json.RawMessage\<close> is a byte slice holding one JSON value: \<open>None\<close> is the nil
  slice, \<open>Some j\<close> the bytes of \<open>j\<close>. The \<^verbatim>\<open>interface{}\<close> field \<^verbatim>\<open>Data\<close> is
  modelled by the JSON value it encodes to, \<open>None\<close> being the nil interface.
\<close>

type_synonym RawMessage = "json option"

record BaseJSONRPCErrorInner =
  ei_Code :: int
  ei_Data :: "json option"
  ei_Message :: string

record BaseJSONRPCError =
  er_Error :: BaseJSONRPCErrorInner
  er_Id :: RequestId
  er_Jsonrpc :: string

record BaseJSONRPCRequest =
  rq_Id :: RequestId
  rq_Jsonrpc :: string
  rq_Method :: string
  rq_Params :: RawMessage

record BaseJSONRPCNotification =
  nt_Jsonrpc :: string
  nt_Method :: string
  nt_Params :: RawMessage

record BaseJSONRPCResponse =
  rs_Id :: RequestId
  rs_Jsonrpc :: string
  rs_Result :: RawMessage

type_synonym BaseMessageType = string

definition BaseMessageTypeJSONRPCRequestType :: BaseMessageType where
  "BaseMessageTypeJSONRPCRequestType = ''request''"

definition BaseMessageTypeJSONRPCNotificationType :: BaseMessageType where
  "BaseMessageTypeJSONRPCNotificationType = ''notification''"

definition BaseMessageTypeJSONRPCResponseType :: BaseMessageType where
  "BaseMessageTypeJSONRPCResponseType = ''response''"

definition BaseMessageTypeJSONRPCErrorType :: BaseMessageType where
  "BaseMessageTypeJSONRPCErrorType = ''error''"

text \<open>The four pointer fields of \<^verbatim>\<open>BaseJsonRpcMessage\<close> are options: \<open>None\<close> is nil.\<close>

record BaseJsonRpcMessage =
  Type :: BaseMessageType
  JsonRpcRequest :: "BaseJSONRPCRequest option"
  JsonRpcNotification :: "BaseJSONRPCNotification option"
  JsonRpcResponse :: "BaseJSONRPCResponse option"
  JsonRpcError :: "BaseJSONRPCError option"

definition NewBaseMessageNotification :: "BaseJSONRPCNotification \<Rightarrow> BaseJsonRpcMessage" where
  "NewBaseMessageNotification notification =
     \<lparr>Type = BaseMessageTypeJSONRPCNotificationType,
      JsonRpcRequest = None, JsonRpcNotification = Some notification,
      JsonRpcResponse = None, JsonRpcError = None\<rparr>"

definition NewBaseMessageRequest :: "BaseJSONRPCRequest \<Rightarrow> BaseJsonRpcMessage" where
  "NewBaseMessageRequest request =
     \<lparr>Type = BaseMessageTypeJSONRPCRequestType,
      JsonRpcRequest = Some request, JsonRpcNotification = None,
      JsonRpcResponse = None, JsonRpcError = None\<rparr>"

definition NewBaseMessageResponse :: "BaseJSONRPCResponse \<Rightarrow> BaseJsonRpcMessage" where
  "NewBaseMessageResponse response =
     \<lparr>Type = BaseMessageTypeJSONRPCResponseType,
      JsonRpcRequest = None, JsonRpcNotification = None,
      JsonRpcResponse = Some response, JsonRpcError = None\<rparr>"

definition NewBaseMessageError :: "BaseJSONRPCError \<Rightarrow> BaseJsonRpcMessage" where
  "NewBaseMessageError e =
     \<lparr>Type = BaseMessageTypeJSONRPCErrorType,
      JsonRpcRequest = None, JsonRpcNotification = None,
      JsonRpcResponse = None,
      JsonRpcError = Some \<lparr>er_Error = er_Error e, er_Id = er_Id e, er_Jsonrpc = er_Jsonrpc e\<rparr>\<rparr>"

subsection \<open>Errors of the package, as values\<close>

datatype error =
    UnknownMessageType
  | FailedToParseJSON
  | NoMatchingRequestForResponse RequestId
  | NoMatchingRequestForErrorResponse RequestId
  | UnrecognizedType
  | NoResponseChannel RequestId
  | FailedToReadBody

subsection \<open>Encoding: \<^verbatim>\<open>json.Marshal\<close> of the four structs and \<^verbatim>\<open>MarshalJSON\<close>\<close>

text \<open>
  Members appear in field order under their tag names; \<^verbatim>\<open>omitempty\<close> drops a nil
  \<^verbatim>\<open>Params\<close> and a nil \<^verbatim>\<open>Data\<close>; a nil \<^verbatim>\<open>Result\<close> (no \<^verbatim>\<open>omitempty\<close>) is
  written as \<^verbatim>\<open>null\<close>; a nil pointer encodes as \<^verbatim>\<open>null\<close>.
\<close>

definition omitempty :: "string \<Rightarrow> json option \<Rightarrow> (string \<times> json) list" where
  "omitempty name v = (case v of None \<Rightarrow> [] | Some j \<Rightarrow> [(name, j)])"




definition marshal_request :: "BaseJSONRPCRequest \<Rightarrow> json" where
  "marshal_request r =
     JObj ([(''id'', JNum (rq_Id r)), (''jsonrpc'', JStr (rq_Jsonrpc r)),
            (''method'', JStr (rq_Method r))] @ omitempty ''params'' (rq_Params r))"

definition marshal_notification :: "BaseJSONRPCNotification \<Rightarrow> json" where
  "marshal_notification n =
     JObj ([(''jsonrpc'', JStr (nt_Jsonrpc n)), (''method'', JStr (nt_Method n))]
           @ omitempty ''params'' (nt_Params n))"





subsection \<open>Decoding: \<^verbatim>\<open>json.Unmarshal\<close> into a struct\<close>

text \<open>
  Each store function gives the new value of a field for one member value, or \<open>None\<close>
  when the decoder reports a type error. \<^verbatim>\<open>null\<close> leaves a non-pointer field as it
  is and sets a pointer field to nil; a \<^verbatim>\<open>json.RawMessage\<close> takes the bytes of any
  value, \<^verbatim>\<open>null\<close> included.
\<close>

definition in_int64 :: "int \<Rightarrow> bool" where
  "in_int64 n \<longleftrightarrow> - (2 ^ 63) \<le> n \<and> n < 2 ^ 63"

definition store_int :: "int \<Rightarrow> json \<Rightarrow> int option" where
  "store_int cur j =
     (case j of JNull \<Rightarrow> Some cur
      | JNum n \<Rightarrow> if in_int64 n then Some n else None
      | _ \<Rightarrow> None)"

definition store_int_ptr :: "json \<Rightarrow> int option option" where
  "store_int_ptr j =
     (case j of JNull \<Rightarrow> Some None
      | JNum n \<Rightarrow> if in_int64 n then Some (Some n) else None
      | _ \<Rightarrow> None)"

definition store_string :: "string \<Rightarrow> json \<Rightarrow> string option" where
  "store_string cur j = (case j of JNull \<Rightarrow> Some cur | JStr s \<Rightarrow> Some s | _ \<Rightarrow> None)"

definition store_raw :: "json \<Rightarrow> RawMessage" where
  "store_raw j = Some j"

definition store_interface :: "json \<Rightarrow> json option" where
  "store_interface j = (case j of JNull \<Rightarrow> None | _ \<Rightarrow> Some j)"

fun decode_fields :: "('a \<Rightarrow> string \<times> json \<Rightarrow> 'a option) \<Rightarrow> 'a \<Rightarrow> (string \<times> json) list \<Rightarrow> 'a option" where
  "decode_fields f a [] = Some a"
| "decode_fields f a (kv # kvs) =
     (case f a kv of None \<Rightarrow> None | Some a' \<Rightarrow> decode_fields f a' kvs)"

definition zero_inner :: BaseJSONRPCErrorInner where
  "zero_inner = \<lparr>ei_Code = 0, ei_Data = None, ei_Message = []\<rparr>"

fun set_inner :: "BaseJSONRPCErrorInner \<Rightarrow> string \<times> json \<Rightarrow> BaseJSONRPCErrorInner option" where
  "set_inner e (k, v) =
     (if k = ''code'' then map_option (\<lambda>x. e\<lparr>ei_Code := x\<rparr>) (store_int (ei_Code e) v)
      else if k = ''data'' then Some (e\<lparr>ei_Data := store_interface v\<rparr>)
      else if k = ''message'' then map_option (\<lambda>x. e\<lparr>ei_Message := x\<rparr>) (store_string (ei_Message e) v)
      else Some e)"

definition store_inner :: "BaseJSONRPCErrorInner \<Rightarrow> json \<Rightarrow> BaseJSONRPCErrorInner option" where
  "store_inner cur j =
     (case j of JNull \<Rightarrow> Some cur
      | JObj kvs \<Rightarrow> decode_fields set_inner cur kvs
      | _ \<Rightarrow> None)"

definition store_inner_ptr :: "BaseJSONRPCErrorInner option \<Rightarrow> json \<Rightarrow> BaseJSONRPCErrorInner option option" where
  "store_inner_ptr cur j =
     (case j of JNull \<Rightarrow> Some None
      | JObj kvs \<Rightarrow>
          map_option Some
            (decode_fields set_inner (case cur of None \<Rightarrow> zero_inner | Some e \<Rightarrow> e) kvs)
      | _ \<Rightarrow> None)"

text \<open>
  Decoding a whole body into a struct: invalid JSON and a top-level value that is neither
  an object nor \<^verbatim>\<open>null\<close> are errors; \<^verbatim>\<open>null\<close> leaves the zero struct.
\<close>

definition unmarshal_struct :: "('a \<Rightarrow> string \<times> json \<Rightarrow> 'a option) \<Rightarrow> 'a \<Rightarrow> body \<Rightarrow> 'a option" where
  "unmarshal_struct f zero b =
     (case b of None \<Rightarrow> None
      | Some JNull \<Rightarrow> Some zero
      | Some (JObj kvs) \<Rightarrow> decode_fields f zero kvs
      | Some _ \<Rightarrow> None)"

text \<open>
  Modelled from the spec: the declaration of \<^verbatim>\<open>transport.JSONRPCCommon\<close> is not among
  the sources. It is the "generic envelope capable of holding any of the four message
  shapes"; its fields and their types are the ones \<^verbatim>\<open>handleMessage\<close> reads
  (\<^verbatim>\<open>Id\<close> and \<^verbatim>\<open>Error\<close> compared with nil and dereferenced, \<^verbatim>\<open>Result\<close> compared
  with nil, \<^verbatim>\<open>Method\<close> compared with the empty string), under the member names of the
  four message structs.
\<close>

record JSONRPCCommon =
  cm_Id :: "RequestId option"
  cm_Jsonrpc :: string
  cm_Method :: string
  cm_Params :: RawMessage
  cm_Result :: RawMessage
  cm_Error :: "BaseJSONRPCErrorInner option"

definition zero_common :: JSONRPCCommon where
  "zero_common = \<lparr>cm_Id = None, cm_Jsonrpc = [], cm_Method = [], cm_Params = None,
                  cm_Result = None, cm_Error = None\<rparr>"

fun set_common :: "JSONRPCCommon \<Rightarrow> string \<times> json \<Rightarrow> JSONRPCCommon option" where
  "set_common c (k, v) =
     (if k = ''id'' then map_option (\<lambda>x. c\<lparr>cm_Id := x\<rparr>) (store_int_ptr v)
      else if k = ''jsonrpc'' then map_option (\<lambda>x. c\<lparr>cm_Jsonrpc := x\<rparr>) (store_string (cm_Jsonrpc c) v)
      else if k = ''method'' then map_option (\<lambda>x. c\<lparr>cm_Method := x\<rparr>) (store_string (cm_Method c) v)
      else if k = ''params'' then Some (c\<lparr>cm_Params := store_raw v\<rparr>)
      else if k = ''result'' then Some (c\<lparr>cm_Result := store_raw v\<rparr>)
      else if k = ''error'' then map_option (\<lambda>x. c\<lparr>cm_Error := x\<rparr>) (store_inner_ptr (cm_Error c) v)
      else Some c)"

definition unmarshal_common :: "body \<Rightarrow> JSONRPCCommon option" where
  "unmarshal_common = unmarshal_struct set_common zero_common"


subsection \<open>The four message structs decoded on their own (transport/http/common.go)\<close>

text \<open>
  \<^verbatim>\<open>transport/types.go\<close> declares no decoding method for the four structs, so
  \<^verbatim>\<open>json.Unmarshal\<close> fills the tagged fields it finds, ignores every other member and
  fails only on invalid JSON, on a top-level value that is not an object, or on a member
  whose value does not fit the field's type.
\<close>

definition zero_request :: BaseJSONRPCRequest where
  "zero_request = \<lparr>rq_Id = 0, rq_Jsonrpc = [], rq_Method = [], rq_Params = None\<rparr>"

fun set_request :: "BaseJSONRPCRequest \<Rightarrow> string \<times> json \<Rightarrow> BaseJSONRPCRequest option" where
  "set_request r (k, v) =
     (if k = ''id'' then map_option (\<lambda>x. r\<lparr>rq_Id := x\<rparr>) (store_int (rq_Id r) v)
      else if k = ''jsonrpc'' then map_option (\<lambda>x. r\<lparr>rq_Jsonrpc := x\<rparr>) (store_string (rq_Jsonrpc r) v)
      else if k = ''method'' then map_option (\<lambda>x. r\<lparr>rq_Method := x\<rparr>) (store_string (rq_Method r) v)
      else if k = ''params'' then Some (r\<lparr>rq_Params := store_raw v\<rparr>)
      else Some r)"

definition unmarshal_request :: "body \<Rightarrow> BaseJSONRPCRequest option" where
  "unmarshal_request = unmarshal_struct set_request zero_request"

definition zero_notification :: BaseJSONRPCNotification where
  "zero_notification = \<lparr>nt_Jsonrpc = [], nt_Method = [], nt_Params = None\<rparr>"

fun set_notification :: "BaseJSONRPCNotification \<Rightarrow> string \<times> json \<Rightarrow> BaseJSONRPCNotification option" where
  "set_notification n (k, v) =
     (if k = ''jsonrpc'' then map_option (\<lambda>x. n\<lparr>nt_Jsonrpc := x\<rparr>) (store_string (nt_Jsonrpc n) v)
      else if k = ''method'' then map_option (\<lambda>x. n\<lparr>nt_Method := x\<rparr>) (store_string (nt_Method n) v)
      else if k = ''params'' then Some (n\<lparr>nt_Params := store_raw v\<rparr>)
      else Some n)"

definition unmarshal_notification :: "body \<Rightarrow> BaseJSONRPCNotification option" where
  "unmarshal_notification = unmarshal_struct set_notification zero_notification"

definition zero_response :: BaseJSONRPCResponse where
  "zero_response = \<lparr>rs_Id = 0, rs_Jsonrpc = [], rs_Result = None\<rparr>"

fun set_response :: "BaseJSONRPCResponse \<Rightarrow> string \<times> json \<Rightarrow> BaseJSONRPCResponse option" where
  "set_response r (k, v) =
     (if k = ''id'' then map_option (\<lambda>x. r\<lparr>rs_Id := x\<rparr>) (store_int (rs_Id r) v)
      else if k = ''jsonrpc'' then map_option (\<lambda>x. r\<lparr>rs_Jsonrpc := x\<rparr>) (store_string (rs_Jsonrpc r) v)
      else if k = ''result'' then Some (r\<lparr>rs_Result := store_raw v\<rparr>)
      else Some r)"

definition unmarshal_response :: "body \<Rightarrow> BaseJSONRPCResponse option" where
  "unmarshal_response = unmarshal_struct set_response zero_response"

definition zero_error :: BaseJSONRPCError where
  "zero_error = \<lparr>er_Error = zero_inner, er_Id = 0, er_Jsonrpc = []\<rparr>"

fun set_error :: "BaseJSONRPCError \<Rightarrow> string \<times> json \<Rightarrow> BaseJSONRPCError option" where
  "set_error e (k, v) =
     (if k = ''error'' then map_option (\<lambda>x. e\<lparr>er_Error := x\<rparr>) (store_inner (er_Error e) v)
      else if k = ''id'' then map_option (\<lambda>x. e\<lparr>er_Id := x\<rparr>) (store_int (er_Id e) v)
      else if k = ''jsonrpc'' then map_option (\<lambda>x. e\<lparr>er_Jsonrpc := x\<rparr>) (store_string (er_Jsonrpc e) v)
      else Some e)"

definition unmarshal_error :: "body \<Rightarrow> BaseJSONRPCError option" where
  "unmarshal_error = unmarshal_struct set_error zero_error"

section \<open>The stateless-HTTP bridge\<close>

subsection \<open>Transport state\<close>

text \<open>
  \<^verbatim>\<open>baseTransport\<close> (exported as \<^verbatim>\<open>BaseTransport\<close> in transport/http/common.go, with
  capitalised field names) holds three callbacks and the response map. A callback is
  modelled by whether it is installed and by a log of its invocations: the message
  handler is taken to record the message and return without calling back into the
  transport. Channels are numbered in the order \<^verbatim>\<open>make(chan ...)\<close> creates them;
  \<open>chans\<close> counts the channels made so far, so \<open>chans t\<close> is the next fresh one.
\<close>

type_synonym chan = nat

record baseTransport =
  messageHandler :: bool
  errorHandler :: bool
  closeHandler :: bool
  responseMap :: "int \<rightharpoonup> chan"
  chans :: nat
  handled :: "BaseJsonRpcMessage list"
  reported :: "error list"
  closed :: nat

definition newBaseTransport :: baseTransport where
  "newBaseTransport =
     \<lparr>messageHandler = False, errorHandler = False, closeHandler = False,
      responseMap = Map.empty, chans = 0, handled = [], reported = [], closed = 0\<rparr>"

definition SetMessageHandler :: "baseTransport \<Rightarrow> baseTransport" where
  "SetMessageHandler t = t\<lparr>messageHandler := True\<rparr>"

definition SetErrorHandler :: "baseTransport \<Rightarrow> baseTransport" where
  "SetErrorHandler t = t\<lparr>errorHandler := True\<rparr>"

definition SetCloseHandler :: "baseTransport \<Rightarrow> baseTransport" where
  "SetCloseHandler t = t\<lparr>closeHandler := True\<rparr>"

text \<open>\<^verbatim>\<open>if handler != nil { handler(ctx, m) }\<close>\<close>

definition callHandler :: "baseTransport \<Rightarrow> BaseJsonRpcMessage \<Rightarrow> baseTransport" where
  "callHandler t m = (if messageHandler t then t\<lparr>handled := handled t @ [m]\<rparr> else t)"


subsection \<open>What a call does: return, panic, or park on a channel\<close>

text \<open>
  A Go call either returns, panics, or blocks on an unbuffered channel. \<open>Return\<close>
  carries the returned pair \<^verbatim>\<open>(message, nil)\<close> as \<open>Msg\<close>, an error as \<open>Err\<close>, and
  a nil error of a function that returns only an error as \<open>Nil\<close>. \<open>Receive c k\<close> is a
  call parked at \<^verbatim>\<open><-c\<close> that goes on as \<open>k\<close> says once a message arrives;
  \<open>Deliver c m r\<close> is a call parked at \<^verbatim>\<open>c <- m\<close> that returns \<open>r\<close> once a receiver
  has taken \<open>m\<close>.
\<close>

datatype retval = Msg "BaseJsonRpcMessage option" | Err error | Nil

datatype cont =
    Restore int "RequestId option"
  | RestoreChecked int RequestId

datatype outcome =
    Return retval
  | Panic
  | Receive chan cont
  | Deliver chan BaseJsonRpcMessage retval
  | Forever

subsection \<open>Slot allocation\<close>

text \<open>
  \<^verbatim>\<open>for key < 1000000 { if _, ok := t.responseMap[key]; !ok { break }; key++ }\<close>,
  entered with \<^verbatim>\<open>key = 0\<close>.
\<close>

function findKey :: "(int \<rightharpoonup> chan) \<Rightarrow> int \<Rightarrow> int" where
  "findKey m key =
     (if key < 1000000 then (if m key = None then key else findKey m (key + 1)) else key)"
  by pat_completeness auto
termination
  by (relation "measure (\<lambda>(m, key). nat (1000000 - key))") auto

declare findKey.simps [simp del]

text \<open>The locked prologue: probe, then \<^verbatim>\<open>t.responseMap[key] = make(chan ...)\<close>.\<close>

definition allocate :: "baseTransport \<Rightarrow> baseTransport \<times> int" where
  "allocate t =
     (let key = findKey (responseMap t) 0
      in (t\<lparr>responseMap := (responseMap t)(key \<mapsto> chans t), chans := Suc (chans t)\<rparr>, key))"

text \<open>\<^verbatim>\<open><-t.responseMap[key]\<close>: a missing key yields the nil channel, which never delivers.\<close>

definition await :: "baseTransport \<Rightarrow> int \<Rightarrow> cont \<Rightarrow> outcome" where
  "await t key k = (case responseMap t key of None \<Rightarrow> Forever | Some c \<Rightarrow> Receive c k)"

subsection \<open>\<^verbatim>\<open>Send\<close> and \<^verbatim>\<open>Close\<close> (the same text in common.go, chi.go, gin.go and the unexported variant)\<close>

definition Send :: "baseTransport \<Rightarrow> BaseJsonRpcMessage \<Rightarrow> baseTransport \<times> outcome" where
  "Send t message =
     (case JsonRpcResponse message of
        None \<Rightarrow> (t, Panic)
      | Some r \<Rightarrow>
          (case responseMap t (rs_Id r) of
             None \<Rightarrow> (t, Return (Err (NoResponseChannel (rs_Id r))))
           | Some responseChannel \<Rightarrow> (t, Deliver responseChannel message Nil)))"

definition Close :: "baseTransport \<Rightarrow> baseTransport \<times> outcome" where
  "Close t = ((if closeHandler t then t\<lparr>closed := Suc (closed t)\<rparr> else t), Return Nil)"

subsection \<open>\<^verbatim>\<open>baseTransport.handleMessage\<close> (the envelope variant)\<close>

definition handleMessage :: "baseTransport \<Rightarrow> body \<Rightarrow> baseTransport \<times> outcome" where
  "handleMessage t b =
     (let (t1, key) = allocate t
      in case unmarshal_common b of
           None \<Rightarrow> (t1, Return (Err FailedToParseJSON))
         | Some tmp \<Rightarrow>
             if cm_Method tmp \<noteq> [] \<and> cm_Id tmp \<noteq> None then
               (case cm_Id tmp of
                  None \<Rightarrow> (t1, Panic)
                | Some originalId \<Rightarrow>
                    (let request = \<lparr>rq_Id = key, rq_Jsonrpc = cm_Jsonrpc tmp,
                                    rq_Method = cm_Method tmp, rq_Params = cm_Params tmp\<rparr>;
                         t2 = callHandler t1 (NewBaseMessageRequest request)
                     in (t2, await t2 key (RestoreChecked key originalId))))
             else if cm_Method tmp \<noteq> [] \<and> cm_Id tmp = None then
               (let notification = \<lparr>nt_Jsonrpc = cm_Jsonrpc tmp, nt_Method = cm_Method tmp,
                                    nt_Params = cm_Params tmp\<rparr>
                in (callHandler t1 (NewBaseMessageNotification notification), Return (Msg None)))
             else if cm_Result tmp \<noteq> None \<and> cm_Id tmp \<noteq> None then
               (case cm_Id tmp of
                  None \<Rightarrow> (t1, Panic)
                | Some rid \<Rightarrow>
                    (let response = \<lparr>rs_Id = rid, rs_Jsonrpc = cm_Jsonrpc tmp,
                                     rs_Result = cm_Result tmp\<rparr>
                     in case responseMap t1 rid of
                          Some responseChan \<Rightarrow>
                            (t1, Deliver responseChan (NewBaseMessageResponse response) (Msg None))
                        | None \<Rightarrow> (t1, Return (Err (NoMatchingRequestForResponse rid)))))
             else if cm_Error tmp \<noteq> None \<and> cm_Id tmp \<noteq> None then
               (case (cm_Error tmp, cm_Id tmp) of
                  (Some inner, Some rid) \<Rightarrow>
                    (let errorResponse = \<lparr>er_Error = inner, er_Id = rid,
                                          er_Jsonrpc = cm_Jsonrpc tmp\<rparr>
                     in case responseMap t1 rid of
                          Some responseChan \<Rightarrow>
                            (t1, Deliver responseChan (NewBaseMessageError errorResponse) (Msg None))
                        | None \<Rightarrow> (t1, Return (Err (NoMatchingRequestForErrorResponse rid))))
                | _ \<Rightarrow> (t1, Panic))
             else (t1, Return (Err UnrecognizedType)))"

text \<open>
  The continuations after the blocking receive. \<open>RestoreChecked\<close> is the envelope
  variant (the id is restored only into a response), \<open>Restore\<close> the one of
  common.go, which dereferences \<^verbatim>\<open>JsonRpcResponse\<close> unguarded.
\<close>

fun resume :: "baseTransport \<Rightarrow> cont \<Rightarrow> BaseJsonRpcMessage \<Rightarrow> baseTransport \<times> outcome" where
  "resume t (RestoreChecked key prevId) responseToUse =
     (let t' = t\<lparr>responseMap := (responseMap t)(key := None)\<rparr>
      in case JsonRpcResponse responseToUse of
           Some r \<Rightarrow>
             (t', Return (Msg (Some (responseToUse\<lparr>JsonRpcResponse := Some (r\<lparr>rs_Id := prevId\<rparr>)\<rparr>))))
         | None \<Rightarrow> (t', Return (Msg (Some responseToUse))))"
| "resume t (Restore key prevId) responseToUse =
     (let t' = t\<lparr>responseMap := (responseMap t)(key := None)\<rparr>
      in case prevId of
           None \<Rightarrow> (t', Return (Msg (Some responseToUse)))
         | Some p \<Rightarrow>
             (case JsonRpcResponse responseToUse of
                Some r \<Rightarrow>
                  (t', Return (Msg (Some (responseToUse\<lparr>JsonRpcResponse := Some (r\<lparr>rs_Id := p\<rparr>)\<rparr>))))
              | None \<Rightarrow> (t', Panic)))"

subsection \<open>The decoder inside \<^verbatim>\<open>handleMessage\<close>\<close>

text \<open>
  The decoding steps of \<^verbatim>\<open>handleMessage\<close> on their own: the body is decoded into the
  envelope and the cases of the switch build the struct of the kind they recognise. The
  request is built here with the id the body carries, the value \<^verbatim>\<open>handleMessage\<close>
  keeps as \<^verbatim>\<open>originalId\<close> while it hands the handler the request under the slot.
  Lemma \<open>handleMessage_decode\<close> below shows that \<^verbatim>\<open>handleMessage\<close> is this decoder
  followed by the bridge's own steps.
\<close>

definition decode :: "body \<Rightarrow> error + BaseJsonRpcMessage" where
  "decode b =
     (case unmarshal_common b of
        None \<Rightarrow> Inl FailedToParseJSON
      | Some tmp \<Rightarrow>
          (case cm_Id tmp of
             Some originalId \<Rightarrow>
               if cm_Method tmp \<noteq> [] then
                 Inr (NewBaseMessageRequest
                        \<lparr>rq_Id = originalId, rq_Jsonrpc = cm_Jsonrpc tmp,
                         rq_Method = cm_Method tmp, rq_Params = cm_Params tmp\<rparr>)
               else if cm_Result tmp \<noteq> None then
                 Inr (NewBaseMessageResponse
                        \<lparr>rs_Id = originalId, rs_Jsonrpc = cm_Jsonrpc tmp,
                         rs_Result = cm_Result tmp\<rparr>)
               else
                 (case cm_Error tmp of
                    Some inner \<Rightarrow>
                      Inr (NewBaseMessageError
                             \<lparr>er_Error = inner, er_Id = originalId,
                              er_Jsonrpc = cm_Jsonrpc tmp\<rparr>)
                  | None \<Rightarrow> Inl UnrecognizedType)
           | None \<Rightarrow>
               if cm_Method tmp \<noteq> [] then
                 Inr (NewBaseMessageNotification
                        \<lparr>nt_Jsonrpc = cm_Jsonrpc tmp, nt_Method = cm_Method tmp,
                         nt_Params = cm_Params tmp\<rparr>)
               else Inl UnrecognizedType))"

subsection \<open>\<^verbatim>\<open>BaseTransport.HandleMessage\<close> (transport/http/common.go)\<close>

definition HandleMessage :: "baseTransport \<Rightarrow> body \<Rightarrow> baseTransport \<times> outcome" where
  "HandleMessage t b =
     (let (t1, key) = allocate t
      in case unmarshal_request b of
           Some request \<Rightarrow>
             (let t2 = callHandler t1 (NewBaseMessageRequest (request\<lparr>rq_Id := key\<rparr>))
              in (t2, await t2 key (Restore key (Some (rq_Id request)))))
         | None \<Rightarrow>
             (case unmarshal_notification b of
                Some notification \<Rightarrow>
                  (let t2 = callHandler t1 (NewBaseMessageNotification notification)
                   in (t2, await t2 key (Restore key None)))
              | None \<Rightarrow>
                  (case unmarshal_response b of
                     Some response \<Rightarrow>
                       (let t2 = callHandler t1 (NewBaseMessageResponse response)
                        in (t2, await t2 key (Restore key None)))
                   | None \<Rightarrow>
                       (case unmarshal_error b of
                          Some errorResponse \<Rightarrow>
                            (let t2 = callHandler t1 (NewBaseMessageError errorResponse)
                             in (t2, await t2 key (Restore key None)))
                        | None \<Rightarrow> (t1, await t1 key (Restore key None))))))"


subsection \<open>The HTTP handlers\<close>












subsection \<open>Goroutines meeting on channels\<close>

text \<open>
  A system is a transport, the calls parked on channels, the values returned by the
  calls that have finished (in order of completion) and the number of calls that
  panicked. An unbuffered channel hands a message over when a sender and a receiver are
  both parked on it: the receiver then runs its continuation and the sender returns.
\<close>

record system =
  tr :: baseTransport
  parked :: "outcome list"
  returned :: "retval list"
  panics :: nat

definition boot :: "baseTransport \<Rightarrow> system" where
  "boot t = \<lparr>tr = t, parked = [], returned = [], panics = 0\<rparr>"

fun receiver_on :: "chan \<Rightarrow> outcome \<Rightarrow> bool" where
  "receiver_on c (Receive c' k) = (c = c')"
| "receiver_on c _ = False"

fun sender_on :: "chan \<Rightarrow> outcome \<Rightarrow> bool" where
  "sender_on c (Deliver c' m r) = (c = c')"
| "sender_on c _ = False"

fun take_first :: "('a \<Rightarrow> bool) \<Rightarrow> 'a list \<Rightarrow> ('a \<times> 'a list) option" where
  "take_first P [] = None"
| "take_first P (x # xs) =
     (if P x then Some (x, xs)
      else case take_first P xs of None \<Rightarrow> None | Some (y, ys) \<Rightarrow> Some (y, x # ys))"

definition finished :: "system \<Rightarrow> outcome \<Rightarrow> system" where
  "finished s out =
     (case out of
        Return v \<Rightarrow> s\<lparr>returned := returned s @ [v]\<rparr>
      | Panic \<Rightarrow> s\<lparr>panics := Suc (panics s)\<rparr>
      | _ \<Rightarrow> s\<lparr>parked := parked s @ [out]\<rparr>)"

definition handover :: "system \<Rightarrow> cont \<Rightarrow> BaseJsonRpcMessage \<Rightarrow> retval \<Rightarrow> system" where
  "handover s k m r =
     (case resume (tr s) k m of
        (t', out) \<Rightarrow> finished (finished (s\<lparr>tr := t'\<rparr>) out) (Return r))"

definition settle :: "system \<Rightarrow> outcome \<Rightarrow> system" where
  "settle s out =
     (case out of
        Receive c k \<Rightarrow>
          (case take_first (sender_on c) (parked s) of
             Some (Deliver c' m r, rest) \<Rightarrow> handover (s\<lparr>parked := rest\<rparr>) k m r
           | _ \<Rightarrow> finished s out)
      | Deliver c m r \<Rightarrow>
          (case take_first (receiver_on c) (parked s) of
             Some (Receive c' k, rest) \<Rightarrow> handover (s\<lparr>parked := rest\<rparr>) k m r
           | _ \<Rightarrow> finished s out)
      | _ \<Rightarrow> finished s out)"

text \<open>
  Channels are numbered as they are made, so the channel of every parked call and every
  channel in the response map lies below \<open>chans\<close>.
\<close>

fun chan_of :: "outcome \<Rightarrow> chan option" where
  "chan_of (Receive c k) = Some c"
| "chan_of (Deliver c m r) = Some c"
| "chan_of _ = None"

definition known :: "baseTransport \<Rightarrow> outcome \<Rightarrow> bool" where
  "known t p = (case chan_of p of None \<Rightarrow> True | Some c \<Rightarrow> c < chans t)"

definition fresh_channels :: "system \<Rightarrow> bool" where
  "fresh_channels s \<longleftrightarrow>
     list_all (known (tr s)) (parked s) \<and> (\<forall>c \<in> ran (responseMap (tr s)). c < chans (tr s))"

datatype call =
    CallHandleMessage body
  | CallEnvelope body
  | CallSend BaseJsonRpcMessage
  | CallClose

fun perform :: "baseTransport \<Rightarrow> call \<Rightarrow> baseTransport \<times> outcome" where
  "perform t (CallHandleMessage b) = HandleMessage t b"
| "perform t (CallEnvelope b) = handleMessage t b"
| "perform t (CallSend m) = Send t m"
| "perform t CallClose = Close t"

definition exec :: "system \<Rightarrow> call \<Rightarrow> system" where
  "exec s c = (case perform (tr s) c of (t', out) \<Rightarrow> settle (s\<lparr>tr := t'\<rparr>) out)"

definition run :: "system \<Rightarrow> call list \<Rightarrow> system" where
  "run s cs = foldl exec s cs"


section \<open>Registry and pagination\<close>

text \<open>
  \<^verbatim>\<open>Server.handleListTools\<close>, \<^verbatim>\<open>RegisterTool\<close> and the server's
  \<^verbatim>\<open>paginationLimit\<close> are used by server_test.go, but their code is not among the
  sources (server.go holds an earlier \<^verbatim>\<open>Server\<close> without them). They are modelled
  from the specification.
\<close>

record ToolDescriptor =
  td_Name :: string
  td_Description :: string

type_synonym registry = "(string \<times> ToolDescriptor) list"

text \<open>
  Modelled from the spec: \<^verbatim>\<open>RegisterTool\<close>, which is not among the sources.
  "Registering an existing name replaces it."
\<close>

definition RegisterTool :: "string \<Rightarrow> string \<Rightarrow> registry \<Rightarrow> registry" where
  "RegisterTool name description reg =
     (name, \<lparr>td_Name = name, td_Description = description\<rparr>) # filter (\<lambda>kv. fst kv \<noteq> name) reg"

datatype list_error = InvalidCursorError

record ToolsResponse =
  Tools :: "ToolDescriptor list"
  NextCursor :: "string option"

text \<open>
  Modelled from the spec: \<^verbatim>\<open>handleListTools\<close>, which is not among the sources. "Sort
  all registered keys lexicographically by name, locate the first key strictly greater
  than the supplied cursor (or the first key overall if no cursor), return up to limit
  consecutive keys' descriptors, and set nextCursor to the last returned key if further
  keys remain, else omit it. An unrecognized cursor fails with InvalidCursorError." A
  nil \<^verbatim>\<open>paginationLimit\<close> returns every remaining descriptor.
\<close>

definition after_cursor :: "string option \<Rightarrow> registry \<Rightarrow> registry" where
  "after_cursor cursor ordered =
     (case cursor of None \<Rightarrow> ordered | Some c \<Rightarrow> dropWhile (\<lambda>kv. fst kv \<le> c) ordered)"

definition page_of :: "nat option \<Rightarrow> registry \<Rightarrow> ToolsResponse" where
  "page_of limit rest =
     (case limit of
        None \<Rightarrow> \<lparr>Tools = map snd rest, NextCursor = None\<rparr>
      | Some n \<Rightarrow>
          \<lparr>Tools = map snd (take n rest),
           NextCursor = (case rev (take n rest) of
                           [] \<Rightarrow> None
                         | kv # _ \<Rightarrow> if n < length rest then Some (fst kv) else None)\<rparr>)"

definition handleListTools :: "registry \<Rightarrow> nat option \<Rightarrow> string option \<Rightarrow> list_error + ToolsResponse" where
  "handleListTools reg limit cursor =
     (let ordered = sort_key fst reg
      in case cursor of
           None \<Rightarrow> Inr (page_of limit ordered)
         | Some c \<Rightarrow>
             if c \<in> fst ` set reg then Inr (page_of limit (after_cursor cursor ordered))
             else Inl InvalidCursorError)"


section \<open>Concrete inputs\<close>

definition served :: baseTransport where
  "served = SetMessageHandler newBaseTransport"

definition ping7 :: BaseJSONRPCRequest where
  "ping7 = \<lparr>rq_Id = 7, rq_Jsonrpc = ''2.0'', rq_Method = ''ping'', rq_Params = None\<rparr>"

definition pong :: "RequestId \<Rightarrow> BaseJSONRPCResponse" where
  "pong i = \<lparr>rs_Id = i, rs_Jsonrpc = ''2.0'', rs_Result = Some (JObj [])\<rparr>"

definition failure :: "RequestId \<Rightarrow> BaseJSONRPCError" where
  "failure i =
     \<lparr>er_Error = \<lparr>ei_Code = - 32601, ei_Data = None, ei_Message = ''method not found''\<rparr>,
      er_Id = i, er_Jsonrpc = ''2.0''\<rparr>"

definition initialized :: BaseJSONRPCNotification where
  "initialized = \<lparr>nt_Jsonrpc = ''2.0'', nt_Method = ''notifications/initialized'', nt_Params = None\<rparr>"


text \<open>The response map with every slot from 0 to \<open>n - 1\<close> taken, slot \<open>k\<close> by channel \<open>k\<close>.\<close>

definition slots :: "nat \<Rightarrow> (int \<rightharpoonup> chan)" where
  "slots n = (\<lambda>k. if 0 \<le> k \<and> k < int n then Some (nat k) else None)"

definition crowded :: "nat \<Rightarrow> baseTransport" where
  "crowded n = served\<lparr>responseMap := slots n, chans := n\<rparr>"

text \<open>
  A fresh transport with a message handler, after \<open>n\<close> notification bodies went through
  \<^verbatim>\<open>handleMessage\<close> one after the other.
\<close>

definition flood :: "nat \<Rightarrow> system" where
  "flood n = run (boot served) (replicate n (CallEnvelope (Some (marshal_notification initialized))))"



text \<open>
  The registered keys in lexicographic order that are strictly greater than the cursor
  (all of them without a cursor).
\<close>

definition keys_after :: "string option \<Rightarrow> registry \<Rightarrow> string list" where
  "keys_after cursor reg =
     filter (\<lambda>k. case cursor of None \<Rightarrow> True | Some c \<Rightarrow> c < k) (sort (map fst reg))"

text \<open>The five tools of \<^verbatim>\<open>TestHandleListToolsPagination\<close>, registered in its order.\<close>

definition five_tools :: registry where
  "five_tools =
     RegisterTool ''d-tool'' ''Test tool d-tool''
       (RegisterTool ''e-tool'' ''Test tool e-tool''
         (RegisterTool ''c-tool'' ''Test tool c-tool''
           (RegisterTool ''a-tool'' ''Test tool a-tool''
             (RegisterTool ''b-tool'' ''Test tool b-tool'' []))))"

section \<open>Slot allocation: the probe\<close>

lemma findKey_here: "key < 1000000 \<Longrightarrow> m key = None \<Longrightarrow> findKey m key = key"
  by (subst findKey.simps) simp

lemma findKey_next: "key < 1000000 \<Longrightarrow> m key \<noteq> None \<Longrightarrow> findKey m key = findKey m (key + 1)"
  by (subst findKey.simps) auto

lemma findKey_stop: "\<not> key < 1000000 \<Longrightarrow> findKey m key = key"
  by (subst findKey.simps) simp

lemma findKey_free:
  "\<exists>k. key \<le> k \<and> k < 1000000 \<and> m k = None \<Longrightarrow>
   key \<le> findKey m key \<and> findKey m key < 1000000 \<and> m (findKey m key) = None \<and>
   (\<forall>j. key \<le> j \<and> j < findKey m key \<longrightarrow> m j \<noteq> None)"
proof (induction m key rule: findKey.induct)
  case (1 m key)
  from "1.prems" obtain k where k: "key \<le> k" "k < 1000000" "m k = None" by blast
  then have lt: "key < 1000000" by simp
  show ?case
  proof (cases "m key = None")
    case True
    then show ?thesis using lt by (auto simp: findKey_here)
  next
    case False
    with k have "key \<noteq> k" by auto
    with k have "\<exists>k. key + 1 \<le> k \<and> k < 1000000 \<and> m k = None" by (intro exI[of _ k]) simp
    from "1.IH"[OF lt False this]
    have ih: "key + 1 \<le> findKey m (key + 1)" "findKey m (key + 1) < 1000000"
        "m (findKey m (key + 1)) = None"
        "\<forall>j. key + 1 \<le> j \<and> j < findKey m (key + 1) \<longrightarrow> m j \<noteq> None" by simp_all
    have eq: "findKey m key = findKey m (key + 1)" using lt False by (rule findKey_next)
    have "\<forall>j. key \<le> j \<and> j < findKey m (key + 1) \<longrightarrow> m j \<noteq> None"
    proof (intro allI impI)
      fix j assume j: "key \<le> j \<and> j < findKey m (key + 1)"
      show "m j \<noteq> None"
      proof (cases "j = key")
        case True then show ?thesis using False by simp
      next
        case False
        with j have "key + 1 \<le> j \<and> j < findKey m (key + 1)" by simp
        with ih(4) show ?thesis by blast
      qed
    qed
    with ih show ?thesis unfolding eq by simp
  qed
qed

lemma findKey_full:
  "key \<le> 1000000 \<Longrightarrow> \<forall>k. key \<le> k \<and> k < 1000000 \<longrightarrow> m k \<noteq> None \<Longrightarrow> findKey m key = 1000000"
proof (induction m key rule: findKey.induct)
  case (1 m key)
  show ?case
  proof (cases "key < 1000000")
    case True
    then have ne: "m key \<noteq> None" using "1.prems" by auto
    have "findKey m (key + 1) = 1000000" using "1.IH"[OF True ne] "1.prems" True by auto
    then show ?thesis using True ne by (simp add: findKey_next)
  next
    case False
    then show ?thesis using "1.prems" by (simp add: findKey_stop)
  qed
qed

lemma findKey_slots_below: "n < 1000000 \<Longrightarrow> findKey (slots n) 0 = int n"
proof -
  assume n: "n < 1000000"
  have ex: "\<exists>k. 0 \<le> k \<and> k < 1000000 \<and> slots n k = None"
    using n by (intro exI[of _ "int n"]) (simp add: slots_def)
  from findKey_free[OF ex]
  have a: "0 \<le> findKey (slots n) 0" and b: "slots n (findKey (slots n) 0) = None"
    and c: "\<forall>j. 0 \<le> j \<and> j < findKey (slots n) 0 \<longrightarrow> slots n j \<noteq> None" by simp_all
  from a b have ge: "int n \<le> findKey (slots n) 0" by (simp add: slots_def split: if_splits)
  have "\<not> int n < findKey (slots n) 0"
  proof
    assume "int n < findKey (slots n) 0"
    with c have "slots n (int n) \<noteq> None" by simp
    then show False by (simp add: slots_def)
  qed
  with ge show ?thesis by simp
qed

lemma findKey_slots_full: "1000000 \<le> n \<Longrightarrow> findKey (slots n) 0 = 1000000"
  by (rule findKey_full) (auto simp: slots_def)


lemma allocate_slots_below:
  "n < 1000000 \<Longrightarrow> responseMap t = slots n \<Longrightarrow> chans t = n \<Longrightarrow>
   allocate t = (t\<lparr>responseMap := slots (Suc n), chans := Suc n\<rparr>, int n)"
proof -
  assume n: "n < 1000000" and m: "responseMap t = slots n" and c: "chans t = n"
  have "(slots n)(int n \<mapsto> n) = slots (Suc n)"
    by (rule ext) (auto simp: slots_def)
  then show ?thesis using n m c by (simp add: allocate_def findKey_slots_below)
qed

lemma allocate_slots_last:
  "responseMap t = slots 1000000 \<Longrightarrow> chans t = 1000000 \<Longrightarrow>
   allocate t = (t\<lparr>responseMap := slots 1000001, chans := 1000001\<rparr>, 1000000)"
proof -
  assume m: "responseMap t = slots 1000000" and c: "chans t = 1000000"
  have "(slots 1000000)(1000000 \<mapsto> 1000000) = slots 1000001"
    by (rule ext) (auto simp: slots_def)
  then show ?thesis using m c by (simp add: allocate_def findKey_slots_full)
qed

lemma allocate_slots_over:
  "responseMap t = slots 1000001 \<Longrightarrow>
   allocate t =
     (t\<lparr>responseMap := (slots 1000001)(1000000 \<mapsto> chans t), chans := Suc (chans t)\<rparr>, 1000000)"
  by (simp add: allocate_def findKey_slots_full)

section \<open>\<^verbatim>\<open>Send\<close>\<close>

text \<open>
  C10. \<^verbatim>\<open>Send\<close> reads \<^verbatim>\<open>message.JsonRpcResponse.Id\<close> first. A message whose
  \<^verbatim>\<open>JsonRpcResponse\<close> is nil makes it dereference a nil pointer; the messages built
  for a request, a notification and an error are such messages. For a message that
  carries a response, when no channel is registered under the response's id the call
  returns an error and the transport is what it was.
\<close>

theorem Send_only_for_responses:
  "(JsonRpcResponse m = None \<longrightarrow> Send t m = (t, Panic)) \<and>
   Send t (NewBaseMessageRequest q) = (t, Panic) \<and>
   Send t (NewBaseMessageNotification n) = (t, Panic) \<and>
   Send t (NewBaseMessageError e) = (t, Panic) \<and>
   (JsonRpcResponse m = Some r \<and> responseMap t (rs_Id r) = None \<longrightarrow>
      Send t m = (t, Return (Err (NoResponseChannel (rs_Id r)))))"
  by (simp add: Send_def NewBaseMessageRequest_def NewBaseMessageNotification_def
      NewBaseMessageError_def)

theorem Send_only_for_responses_witness:
  "JsonRpcResponse (NewBaseMessageError (failure 0)) = None \<and>
   Send served (NewBaseMessageError (failure 0)) = (served, Panic) \<and>
   JsonRpcResponse (NewBaseMessageResponse (pong 5)) = Some (pong 5) \<and>
   responseMap served (rs_Id (pong 5)) = None \<and>
   Send served (NewBaseMessageResponse (pong 5)) = (served, Return (Err (NoResponseChannel 5)))"
  using Send_only_for_responses [of "NewBaseMessageError (failure 0)" served]
        Send_only_for_responses [of "NewBaseMessageResponse (pong 5)" served _ _ _ "pong 5"]
  by (simp add: NewBaseMessageError_def NewBaseMessageResponse_def pong_def served_def
      SetMessageHandler_def newBaseTransport_def)

section \<open>Slots that are never released\<close>

lemma unmarshal_initialized:
  "unmarshal_common (Some (marshal_notification initialized)) =
     Some \<lparr>cm_Id = None, cm_Jsonrpc = ''2.0'', cm_Method = ''notifications/initialized'',
           cm_Params = None, cm_Result = None, cm_Error = None\<rparr>"
  by (simp add: unmarshal_common_def unmarshal_struct_def marshal_notification_def initialized_def
      omitempty_def zero_common_def store_string_def)

lemma handleMessage_initialized:
  "handleMessage t (Some (marshal_notification initialized)) =
     (callHandler (fst (allocate t)) (NewBaseMessageNotification initialized), Return (Msg None))"
  unfolding handleMessage_def unmarshal_initialized
  by (simp add: initialized_def split: prod.splits)

lemma run_snoc: "run s (cs @ [c]) = exec (run s cs) c"
  by (simp add: run_def)

lemma flood_Suc:
  "flood (Suc n) = exec (flood n) (CallEnvelope (Some (marshal_notification initialized)))"
  by (simp only: flood_def replicate_Suc replicate_append_same[symmetric] run_snoc)

lemma exec_initialized:
  "exec s (CallEnvelope (Some (marshal_notification initialized))) =
     s\<lparr>tr := callHandler (fst (allocate (tr s))) (NewBaseMessageNotification initialized),
       returned := returned s @ [Msg None]\<rparr>"
  by (simp add: exec_def handleMessage_initialized settle_def finished_def)

text \<open>
  Every notification body takes the next slot and keeps it: after \<open>n\<close> of them the
  slots \<open>0 .. n - 1\<close> are taken, although every call has returned.
\<close>

lemma flood_slots:
  "n \<le> 1000001 \<Longrightarrow>
   responseMap (tr (flood n)) = slots n \<and> chans (tr (flood n)) = n \<and> parked (flood n) = [] \<and>
   returned (flood n) = replicate n (Msg None) \<and> messageHandler (tr (flood n))"
proof (induction n)
  case 0
  show ?case
    by (auto simp: flood_def run_def boot_def served_def SetMessageHandler_def
        newBaseTransport_def slots_def fun_eq_iff)
next
  case (Suc n)
  then have ih: "responseMap (tr (flood n)) = slots n" "chans (tr (flood n)) = n"
    "parked (flood n) = []" "returned (flood n) = replicate n (Msg None)"
    "messageHandler (tr (flood n))"
    by simp_all
  have al: "allocate (tr (flood n)) =
     ((tr (flood n))\<lparr>responseMap := slots (Suc n), chans := Suc n\<rparr>, int n)"
  proof (cases "n < 1000000")
    case True
    then show ?thesis using ih by (simp add: allocate_slots_below)
  next
    case False
    with Suc.prems have n: "n = 1000000" by simp
    show ?thesis using ih allocate_slots_last[of "tr (flood n)"] unfolding n by simp
  qed
  show ?case
    unfolding flood_Suc exec_initialized
    using ih by (simp add: al callHandler_def replicate_append_same)
qed

text \<open>
  C2 (the code does not do this). One notification body, or one body that is not JSON,
  through \<^verbatim>\<open>handleMessage\<close> on a fresh transport: the call returns, nothing is parked,
  and slot 0 is still in the response map.
\<close>

theorem notification_leaves_its_slot:
  "returned (exec (boot served) (CallEnvelope (Some (marshal_notification initialized)))) = [Msg None] \<and>
   parked (exec (boot served) (CallEnvelope (Some (marshal_notification initialized)))) = [] \<and>
   responseMap (tr (exec (boot served) (CallEnvelope (Some (marshal_notification initialized)))))
     = [0 \<mapsto> 0] \<and>
   returned (exec (boot served) (CallEnvelope None)) = [Err FailedToParseJSON] \<and>
   responseMap (tr (exec (boot served) (CallEnvelope None))) = [0 \<mapsto> 0]"
proof -
  have a: "allocate served = (served\<lparr>responseMap := [0 \<mapsto> 0], chans := 1\<rparr>, 0)"
    by (simp add: allocate_def served_def SetMessageHandler_def newBaseTransport_def findKey_here)
  have t: "tr (boot served) = served" "returned (boot served) = []" "parked (boot served) = []"
    by (simp_all add: boot_def)
  have n: "unmarshal_common None = None"
    by (simp add: unmarshal_common_def unmarshal_struct_def)
  have 1: "exec (boot served) (CallEnvelope (Some (marshal_notification initialized))) =
     (boot served)\<lparr>tr := callHandler (served\<lparr>responseMap := [0 \<mapsto> 0], chans := 1\<rparr>)
                           (NewBaseMessageNotification initialized),
                   returned := [Msg None]\<rparr>"
    by (simp add: exec_initialized t a)
  have 2: "exec (boot served) (CallEnvelope None) =
     (boot served)\<lparr>tr := served\<lparr>responseMap := [0 \<mapsto> 0], chans := 1\<rparr>,
                   returned := [Err FailedToParseJSON]\<rparr>"
    by (simp add: exec_def handleMessage_def n t a settle_def finished_def)
  show ?thesis
    unfolding 1 2 by (simp add: t callHandler_def)
qed

text \<open>
  C4 (the code does not do this). After 1000001 notification bodies every slot from 0 to
  1000000 is taken. A further request is not refused: the probe stops at 1000000 and the
  channel registered there is replaced by a new one, in \<^verbatim>\<open>handleMessage\<close> and in
  \<^verbatim>\<open>HandleMessage\<close> alike.
\<close>

theorem exhausted_slot_is_overwritten:
  "responseMap (tr (flood 1000001)) = slots 1000001 \<and>
   snd (handleMessage (tr (flood 1000001)) (Some (marshal_request ping7)))
     = Receive 1000001 (RestoreChecked 1000000 7) \<and>
   responseMap (tr (flood 1000001)) 1000000 = Some 1000000 \<and>
   responseMap (fst (handleMessage (tr (flood 1000001)) (Some (marshal_request ping7)))) 1000000
     = Some 1000001 \<and>
   snd (HandleMessage (crowded 1000001) (Some (marshal_request ping7)))
     = Receive 1000001 (Restore 1000000 (Some 7)) \<and>
   responseMap (fst (HandleMessage (crowded 1000001) (Some (marshal_request ping7)))) 1000000
     = Some 1000001"
proof -
  have f: "responseMap (tr (flood 1000001)) = slots 1000001" "chans (tr (flood 1000001)) = 1000001"
    using flood_slots[of 1000001] by simp_all
  have u: "unmarshal_common (Some (marshal_request ping7)) =
     Some \<lparr>cm_Id = Some 7, cm_Jsonrpc = ''2.0'', cm_Method = ''ping'',
           cm_Params = None, cm_Result = None, cm_Error = None\<rparr>"
    by (simp add: unmarshal_common_def unmarshal_struct_def marshal_request_def ping7_def
      omitempty_def zero_common_def store_string_def store_int_ptr_def in_int64_def)
  have u2: "unmarshal_request (Some (marshal_request ping7)) = Some ping7"
    by (simp add: unmarshal_request_def unmarshal_struct_def marshal_request_def ping7_def
      omitempty_def zero_request_def store_string_def store_int_def in_int64_def)
  have a: "allocate (tr (flood 1000001)) =
     ((tr (flood 1000001))\<lparr>responseMap := (slots 1000001)(1000000 \<mapsto> 1000001),
                            chans := 1000002\<rparr>, 1000000)"
    using allocate_slots_over[OF f(1)] f(2) by simp
  have c: "allocate (crowded 1000001) =
     ((crowded 1000001)\<lparr>responseMap := (slots 1000001)(1000000 \<mapsto> 1000001),
                        chans := 1000002\<rparr>, 1000000)"
    using allocate_slots_over[of "crowded 1000001"] by (simp add: crowded_def)
  have 1: "snd (handleMessage (tr (flood 1000001)) (Some (marshal_request ping7)))
     = Receive 1000001 (RestoreChecked 1000000 7)"
    by (simp add: handleMessage_def u a await_def callHandler_def)
  have 2: "responseMap (fst (handleMessage (tr (flood 1000001)) (Some (marshal_request ping7))))
             1000000 = Some 1000001"
    by (simp add: handleMessage_def u a await_def callHandler_def)
  have 3: "snd (HandleMessage (crowded 1000001) (Some (marshal_request ping7)))
     = Receive 1000001 (Restore 1000000 (Some 7))"
    unfolding HandleMessage_def u2 c by (simp add: await_def callHandler_def ping7_def)
  have 4: "responseMap (fst (HandleMessage (crowded 1000001) (Some (marshal_request ping7))))
             1000000 = Some 1000001"
    by (simp add: HandleMessage_def u2 c await_def callHandler_def)
  have 5: "responseMap (tr (flood 1000001)) 1000000 = Some 1000000"
    by (simp add: f slots_def)
  from f(1) 1 2 3 4 5 show ?thesis by simp
qed

section \<open>A request and its response\<close>

lemma take_first_none: "(\<forall>x \<in> set xs. \<not> P x) \<Longrightarrow> take_first P xs = None"
  by (induction xs) auto

lemma take_first_last: "(\<forall>x \<in> set xs. \<not> P x) \<Longrightarrow> P y \<Longrightarrow> take_first P (xs @ [y]) = Some (y, xs)"
  by (induction xs) auto

lemma allocate_eq:
  "allocate t = (t\<lparr>responseMap := (responseMap t)(findKey (responseMap t) 0 \<mapsto> chans t),
                   chans := Suc (chans t)\<rparr>, findKey (responseMap t) 0)"
  by (simp add: allocate_def Let_def)

lemma handleMessage_request:
  assumes dec: "unmarshal_common b = Some tmp" and m: "cm_Method tmp \<noteq> []"
    and i: "cm_Id tmp = Some orig"
  shows "handleMessage t b =
     (callHandler (fst (allocate t))
        (NewBaseMessageRequest \<lparr>rq_Id = snd (allocate t), rq_Jsonrpc = cm_Jsonrpc tmp,
                                 rq_Method = cm_Method tmp, rq_Params = cm_Params tmp\<rparr>),
      Receive (chans t) (RestoreChecked (snd (allocate t)) orig))"
  using dec m i
  by (simp add: handleMessage_def await_def callHandler_def allocate_def Let_def)

lemma HandleMessage_request:
  assumes dec: "unmarshal_request b = Some request"
  shows "HandleMessage t b =
     (callHandler (fst (allocate t)) (NewBaseMessageRequest (request\<lparr>rq_Id := snd (allocate t)\<rparr>)),
      Receive (chans t) (Restore (snd (allocate t)) (Some (rq_Id request))))"
  using dec
  by (simp add: HandleMessage_def await_def callHandler_def allocate_def Let_def)

lemma settle_receive_idle:
  "\<forall>p \<in> set (parked s). \<not> sender_on c p \<Longrightarrow>
   settle s (Receive c k) = s\<lparr>parked := parked s @ [Receive c k]\<rparr>"
  by (simp add: settle_def take_first_none finished_def)

lemma settle_deliver_last:
  "\<forall>p \<in> set ps. \<not> receiver_on c p \<Longrightarrow> parked s = ps @ [Receive c k] \<Longrightarrow>
   settle s (Deliver c m r) = handover (s\<lparr>parked := ps\<rparr>) k m r"
  by (simp add: settle_def take_first_last)

lemma Send_response:
  "responseMap t (rs_Id r) = Some c \<Longrightarrow>
   Send t (NewBaseMessageResponse r) = (t, Deliver c (NewBaseMessageResponse r) Nil)"
  by (simp add: Send_def NewBaseMessageResponse_def)


lemma resume_response:
  "resume t (Restore key (Some orig)) (NewBaseMessageResponse r) =
     (t\<lparr>responseMap := (responseMap t)(key := None)\<rparr>,
      Return (Msg (Some (NewBaseMessageResponse (r\<lparr>rs_Id := orig\<rparr>)))))"
  by (simp add: NewBaseMessageResponse_def)

lemma correlated:
  fixes s :: system and k :: cont
  assumes free: "\<exists>k. 0 \<le> k \<and> k < 1000000 \<and> responseMap (tr s) k = None"
    and idle: "\<forall>p \<in> set (parked s). \<not> sender_on (chans (tr s)) p \<and> \<not> receiver_on (chans (tr s)) p"
    and hm: "perform (tr s) call =
       (callHandler (fst (allocate (tr s))) req, Receive (chans (tr s)) k)"
    and rs: "\<And>t. resume t k (NewBaseMessageResponse r) =
       (t\<lparr>responseMap := (responseMap t)(findKey (responseMap (tr s)) 0 := None)\<rparr>,
        Return (Msg (Some (NewBaseMessageResponse (r\<lparr>rs_Id := orig\<rparr>)))))"
    and r: "rs_Id r = findKey (responseMap (tr s)) 0"
  shows "responseMap (tr (exec s call)) = (responseMap (tr s))(findKey (responseMap (tr s)) 0 \<mapsto> chans (tr s))"
    and "handled (tr (exec s call)) = handled (callHandler (tr s) req)"
    and "parked (exec s call) = parked s @ [Receive (chans (tr s)) k]"
    and "returned (exec s call) = returned s"
    and "returned (exec (exec s call) (CallSend (NewBaseMessageResponse r))) =
           returned s @ [Msg (Some (NewBaseMessageResponse (r\<lparr>rs_Id := orig\<rparr>))), Nil]"
    and "parked (exec (exec s call) (CallSend (NewBaseMessageResponse r))) = parked s"
    and "responseMap (tr (exec (exec s call) (CallSend (NewBaseMessageResponse r)))) = responseMap (tr s)"
proof -
  let ?key = "findKey (responseMap (tr s)) 0"
  let ?c = "chans (tr s)"
  let ?t1 = "(tr s)\<lparr>responseMap := (responseMap (tr s))(?key \<mapsto> ?c), chans := Suc ?c\<rparr>"
  have al: "allocate (tr s) = (?t1, ?key)" by (rule allocate_eq)
  from findKey_free[of 0 "responseMap (tr s)"] free
  have none: "responseMap (tr s) ?key = None" by simp
  have s1: "exec s call = s\<lparr>tr := callHandler ?t1 req, parked := parked s @ [Receive ?c k]\<rparr>"
    using idle by (simp add: exec_def hm al settle_receive_idle)
  show "responseMap (tr (exec s call)) = (responseMap (tr s))(?key \<mapsto> ?c)"
    by (simp add: s1 callHandler_def)
  show "handled (tr (exec s call)) = handled (callHandler (tr s) req)"
    by (simp add: s1 callHandler_def)
  show "parked (exec s call) = parked s @ [Receive ?c k]" by (simp add: s1)
  show "returned (exec s call) = returned s" by (simp add: s1)
  have sd: "Send (callHandler ?t1 req) (NewBaseMessageResponse r) =
      (callHandler ?t1 req, Deliver ?c (NewBaseMessageResponse r) Nil)"
    by (rule Send_response) (simp add: r callHandler_def)
  have nr: "\<forall>p \<in> set (parked s). \<not> receiver_on ?c p" using idle by simp
  have s2: "exec (exec s call) (CallSend (NewBaseMessageResponse r)) =
      handover (s\<lparr>tr := callHandler ?t1 req, parked := parked s\<rparr>) k (NewBaseMessageResponse r) Nil"
    unfolding s1 by (simp add: exec_def sd settle_deliver_last[OF nr])
  have del: "((responseMap (tr s))(?key \<mapsto> ?c))(?key := None) = responseMap (tr s)"
    using none by (auto simp: fun_eq_iff)
  have del': "(responseMap (tr s))(?key := None) = responseMap (tr s)"
    using none by (auto simp: fun_eq_iff)
  show "returned (exec (exec s call) (CallSend (NewBaseMessageResponse r))) =
           returned s @ [Msg (Some (NewBaseMessageResponse (r\<lparr>rs_Id := orig\<rparr>))), Nil]"
    unfolding s2 by (simp add: handover_def rs finished_def)
  show "parked (exec (exec s call) (CallSend (NewBaseMessageResponse r))) = parked s"
    unfolding s2 by (simp add: handover_def rs finished_def)
  show "responseMap (tr (exec (exec s call) (CallSend (NewBaseMessageResponse r)))) = responseMap (tr s)"
    unfolding s2 by (simp add: handover_def rs finished_def callHandler_def del del')
qed


subsection \<open>Every channel in use was made before\<close>

lemma take_first_subset: "take_first P xs = Some (y, ys) \<Longrightarrow> set ys \<subseteq> set xs"
  by (induction xs arbitrary: y ys) (auto split: if_splits option.splits)

lemma ran_allocate:
  "\<forall>c \<in> ran (responseMap t). c < chans t \<Longrightarrow>
   \<forall>c \<in> ran (responseMap (fst (allocate t))). c < chans (fst (allocate t))"
  by (auto simp: allocate_def Let_def ran_def less_Suc_eq split: if_splits)

lemma chans_allocate: "chans (fst (allocate t)) = Suc (chans t)"
  by (simp add: allocate_def Let_def)

lemma callHandler_frame:
  "responseMap (callHandler t m) = responseMap t" "chans (callHandler t m) = chans t"
  by (simp_all add: callHandler_def)

lemma handleMessage_frame:
  "responseMap (fst (handleMessage t b)) = responseMap (fst (allocate t)) \<and>
   chans (fst (handleMessage t b)) = chans (fst (allocate t))"
  by (simp add: handleMessage_def callHandler_frame Let_def split: prod.splits option.splits)

lemma handleMessage_chan:
  "chan_of (snd (handleMessage t b)) = Some c \<Longrightarrow> c \<in> ran (responseMap (fst (allocate t)))"
  by (auto simp: handleMessage_def await_def callHandler_frame Let_def ran_def
      split: prod.splits option.splits if_splits)

lemma HandleMessage_frame:
  "responseMap (fst (HandleMessage t b)) = responseMap (fst (allocate t)) \<and>
   chans (fst (HandleMessage t b)) = chans (fst (allocate t))"
  by (simp add: HandleMessage_def callHandler_frame Let_def split: prod.splits option.splits)

lemma HandleMessage_chan:
  "chan_of (snd (HandleMessage t b)) = Some c \<Longrightarrow> c \<in> ran (responseMap (fst (allocate t)))"
  by (auto simp: HandleMessage_def await_def callHandler_frame Let_def ran_def
      split: prod.splits option.splits if_splits)

lemma perform_fresh:
  assumes r: "\<forall>c \<in> ran (responseMap t). c < chans t"
  shows "chans t \<le> chans (fst (perform t call)) \<and>
         (\<forall>c \<in> ran (responseMap (fst (perform t call))). c < chans (fst (perform t call))) \<and>
         known (fst (perform t call)) (snd (perform t call))"
proof (cases call)
  case (CallHandleMessage b)
  from ran_allocate[OF r] HandleMessage_frame[of t b] HandleMessage_chan[of t b]
  show ?thesis unfolding CallHandleMessage
    by (auto simp: known_def chans_allocate split: option.splits)
next
  case (CallEnvelope b)
  from ran_allocate[OF r] handleMessage_frame[of t b] handleMessage_chan[of t b]
  show ?thesis unfolding CallEnvelope
    by (auto simp: known_def chans_allocate split: option.splits)
next
  case (CallSend m)
  from r show ?thesis unfolding CallSend
    by (auto simp: Send_def known_def ran_def split: option.splits)
next
  case CallClose
  from r show ?thesis unfolding CallClose by (simp add: Close_def known_def)
qed

lemma resume_frame:
  "chans (fst (resume t k m)) = chans t \<and>
   ran (responseMap (fst (resume t k m))) \<subseteq> ran (responseMap t) \<and>
   chan_of (snd (resume t k m)) = None"
  by (cases k) (auto simp: Let_def ran_def split: option.splits if_splits)

lemma known_mono: "chans t \<le> chans t' \<Longrightarrow> known t p \<Longrightarrow> known t' p"
  by (auto simp: known_def split: option.splits)

lemma fresh_finished:
  "fresh_channels s \<Longrightarrow> known (tr s) out \<Longrightarrow> fresh_channels (finished s out)"
  by (cases out) (auto simp: fresh_channels_def finished_def)

lemma fresh_handover:
  assumes f: "fresh_channels s"
  shows "fresh_channels (handover s k m r)"
proof -
  obtain t' out where e: "resume (tr s) k m = (t', out)" by (cases "resume (tr s) k m")
  with resume_frame[of "tr s" k m]
  have c: "chans t' = chans (tr s)" and rn: "ran (responseMap t') \<subseteq> ran (responseMap (tr s))"
    and o: "chan_of out = None" by simp_all
  have 1: "fresh_channels (s\<lparr>tr := t'\<rparr>)"
    using f c rn by (auto simp: fresh_channels_def known_def list_all_iff split: option.splits)
  have 2: "fresh_channels (finished (s\<lparr>tr := t'\<rparr>) out)"
    by (rule fresh_finished[OF 1]) (simp add: known_def o)
  have 3: "fresh_channels (finished (finished (s\<lparr>tr := t'\<rparr>) out) (Return r))"
    by (rule fresh_finished[OF 2]) (simp add: known_def)
  show ?thesis by (simp add: handover_def e 3)
qed

lemma fresh_drop:
  "fresh_channels s \<Longrightarrow> set rest \<subseteq> set (parked s) \<Longrightarrow> fresh_channels (s\<lparr>parked := rest\<rparr>)"
  by (auto simp: fresh_channels_def list_all_iff)

lemma fresh_settle:
  assumes f: "fresh_channels s" and k: "known (tr s) out"
  shows "fresh_channels (settle s out)"
proof (cases out)
  case (Receive c k')
  show ?thesis
  proof (cases "take_first (sender_on c) (parked s)")
    case None
    then show ?thesis using fresh_finished[OF f k] by (simp add: settle_def Receive)
  next
    case (Some a)
    obtain p rest where a: "a = (p, rest)" by (cases a)
    from Some a have sub: "set rest \<subseteq> set (parked s)" by (auto dest: take_first_subset)
    show ?thesis
    proof (cases p)
      case (Deliver c' m r)
      with Some a show ?thesis
        using fresh_handover[OF fresh_drop[OF f sub]] by (simp add: settle_def Receive)
    qed (use Some a fresh_finished[OF f k] in \<open>simp_all add: settle_def Receive\<close>)
  qed
next
  case (Deliver c m r)
  show ?thesis
  proof (cases "take_first (receiver_on c) (parked s)")
    case None
    then show ?thesis using fresh_finished[OF f k] by (simp add: settle_def Deliver)
  next
    case (Some a)
    obtain p rest where a: "a = (p, rest)" by (cases a)
    from Some a have sub: "set rest \<subseteq> set (parked s)" by (auto dest: take_first_subset)
    show ?thesis
    proof (cases p)
      case (Receive c' k')
      with Some a show ?thesis
        using fresh_handover[OF fresh_drop[OF f sub]] by (simp add: settle_def Deliver)
    qed (use Some a fresh_finished[OF f k] in \<open>simp_all add: settle_def Deliver\<close>)
  qed
qed (use fresh_finished[OF f k] in \<open>simp_all add: settle_def\<close>)

lemma fresh_exec: "fresh_channels s \<Longrightarrow> fresh_channels (exec s call)"
proof -
  assume f: "fresh_channels s"
  then have r: "\<forall>c \<in> ran (responseMap (tr s)). c < chans (tr s)" by (simp add: fresh_channels_def)
  obtain t' out where p: "perform (tr s) call = (t', out)" by (cases "perform (tr s) call")
  with perform_fresh[OF r, of call]
  have c: "chans (tr s) \<le> chans t'" and rn: "\<forall>c \<in> ran (responseMap t'). c < chans t'"
    and k: "known t' out" by simp_all
  have "fresh_channels (s\<lparr>tr := t'\<rparr>)"
    using f c rn known_mono[OF c] by (auto simp: fresh_channels_def list_all_iff)
  then have "fresh_channels (settle (s\<lparr>tr := t'\<rparr>) out)" by (rule fresh_settle) (simp add: k)
  then show ?thesis by (simp add: exec_def p)
qed

lemma fresh_run: "fresh_channels s \<Longrightarrow> fresh_channels (run s cs)"
  unfolding run_def by (induction cs arbitrary: s) (simp_all add: fresh_exec)

lemma fresh_boot: "fresh_channels (boot newBaseTransport)" "fresh_channels (boot served)"
  by (simp_all add: fresh_channels_def boot_def newBaseTransport_def served_def
      SetMessageHandler_def)

lemma fresh_idle:
  "fresh_channels s \<Longrightarrow>
   \<forall>p \<in> set (parked s). \<not> sender_on (chans (tr s)) p \<and> \<not> receiver_on (chans (tr s)) p"
proof
  fix p assume f: "fresh_channels s" and p: "p \<in> set (parked s)"
  then have "known (tr s) p" by (simp add: fresh_channels_def list_all_iff)
  then show "\<not> sender_on (chans (tr s)) p \<and> \<not> receiver_on (chans (tr s)) p"
    by (cases p) (simp_all add: known_def)
qed

text \<open>
  The response path of the bridge. A body that \<^verbatim>\<open>handleMessage\<close> (or
  \<^verbatim>\<open>HandleMessage\<close>) classifies as a request, on a transport with a free slot below
  1000000: the slot allocated is the least
  free one and is not in the response map; a fresh channel is registered under it; the
  handler gets the request with its id rewritten to the slot; the call is parked on that
  channel and has returned nothing. When \<^verbatim>\<open>Send\<close> is then called with a response whose
  id is the slot, the parked call returns that response with the client's id restored,
  and the slot is gone from the response map. The hypothesis on the parked calls says
  that nobody waits on the channel that is about to be made; it holds in every state
  reached from a new transport (\<open>fresh_boot\<close>, \<open>fresh_run\<close>, \<open>fresh_idle\<close>).
\<close>

theorem request_is_correlated:
  fixes s :: system
  assumes free: "\<exists>k. 0 \<le> k \<and> k < 1000000 \<and> responseMap (tr s) k = None"
    and idle: "\<forall>p \<in> set (parked s). \<not> sender_on (chans (tr s)) p \<and> \<not> receiver_on (chans (tr s)) p"
    and key: "key = findKey (responseMap (tr s)) 0"
    and cls: "(call = CallEnvelope b \<and> unmarshal_common b = Some tmp \<and> cm_Method tmp \<noteq> [] \<and>
               cm_Id tmp = Some orig \<and>
               request = \<lparr>rq_Id = orig, rq_Jsonrpc = cm_Jsonrpc tmp, rq_Method = cm_Method tmp,
                          rq_Params = cm_Params tmp\<rparr> \<and>
               k = RestoreChecked key orig)
            \<or> (call = CallHandleMessage b \<and> unmarshal_request b = Some request \<and>
               orig = rq_Id request \<and> k = Restore key (Some orig))"
    and r: "rs_Id r = key"
  shows "0 \<le> key \<and> key < 1000000 \<and> responseMap (tr s) key = None \<and>
         (\<forall>j. 0 \<le> j \<and> j < key \<longrightarrow> responseMap (tr s) j \<noteq> None) \<and>
         responseMap (tr (exec s call)) = (responseMap (tr s))(key \<mapsto> chans (tr s)) \<and>
         handled (tr (exec s call)) =
           (if messageHandler (tr s)
            then handled (tr s) @ [NewBaseMessageRequest (request\<lparr>rq_Id := key\<rparr>)]
            else handled (tr s)) \<and>
         parked (exec s call) = parked s @ [Receive (chans (tr s)) k] \<and>
         returned (exec s call) = returned s \<and>
         returned (exec (exec s call) (CallSend (NewBaseMessageResponse r))) =
           returned s @ [Msg (Some (NewBaseMessageResponse (r\<lparr>rs_Id := orig\<rparr>))), Nil] \<and>
         parked (exec (exec s call) (CallSend (NewBaseMessageResponse r))) = parked s \<and>
         responseMap (tr (exec (exec s call) (CallSend (NewBaseMessageResponse r)))) =
           responseMap (tr s)"
proof -
  let ?req = "NewBaseMessageRequest (request\<lparr>rq_Id := key\<rparr>)"
  from findKey_free[of 0 "responseMap (tr s)"] free key
  have slot: "0 \<le> key \<and> key < 1000000 \<and> responseMap (tr s) key = None \<and>
         (\<forall>j. 0 \<le> j \<and> j < key \<longrightarrow> responseMap (tr s) j \<noteq> None)" by simp
  have sk: "snd (allocate (tr s)) = key" by (simp add: allocate_eq key)
  have hm: "perform (tr s) call = (callHandler (fst (allocate (tr s))) ?req, Receive (chans (tr s)) k)"
    using cls
  proof
    assume e: "call = CallEnvelope b \<and> unmarshal_common b = Some tmp \<and> cm_Method tmp \<noteq> [] \<and>
               cm_Id tmp = Some orig \<and>
               request = \<lparr>rq_Id = orig, rq_Jsonrpc = cm_Jsonrpc tmp, rq_Method = cm_Method tmp,
                          rq_Params = cm_Params tmp\<rparr> \<and>
               k = RestoreChecked key orig"
    then have "handleMessage (tr s) b =
       (callHandler (fst (allocate (tr s)))
        (NewBaseMessageRequest \<lparr>rq_Id = snd (allocate (tr s)), rq_Jsonrpc = cm_Jsonrpc tmp,
                                 rq_Method = cm_Method tmp, rq_Params = cm_Params tmp\<rparr>),
        Receive (chans (tr s)) (RestoreChecked (snd (allocate (tr s))) orig))"
      by (intro handleMessage_request) simp_all
    with e show ?thesis by (simp add: sk)
  next
    assume e: "call = CallHandleMessage b \<and> unmarshal_request b = Some request \<and>
               orig = rq_Id request \<and> k = Restore key (Some orig)"
    then have "HandleMessage (tr s) b =
       (callHandler (fst (allocate (tr s))) (NewBaseMessageRequest (request\<lparr>rq_Id := snd (allocate (tr s))\<rparr>)),
        Receive (chans (tr s)) (Restore (snd (allocate (tr s))) (Some (rq_Id request))))"
      by (intro HandleMessage_request) simp
    with e show ?thesis by (simp add: sk)
  qed
  have rs: "\<And>t. resume t k (NewBaseMessageResponse r) =
       (t\<lparr>responseMap := (responseMap t)(findKey (responseMap (tr s)) 0 := None)\<rparr>,
        Return (Msg (Some (NewBaseMessageResponse (r\<lparr>rs_Id := orig\<rparr>)))))"
    using cls key by (auto simp: NewBaseMessageResponse_def)
  have r': "rs_Id r = findKey (responseMap (tr s)) 0" using r key by simp
  note c = correlated[OF free idle hm rs r']
  show ?thesis
    using slot c(1) c(2) c(3) c(4) c(5) c(6) c(7) unfolding key by (simp add: callHandler_def)
qed


lemma unmarshal_ping7:
  "unmarshal_common (Some (marshal_request ping7)) =
     Some \<lparr>cm_Id = Some 7, cm_Jsonrpc = ''2.0'', cm_Method = ''ping'',
           cm_Params = None, cm_Result = None, cm_Error = None\<rparr>"
  by (simp add: unmarshal_common_def unmarshal_struct_def marshal_request_def ping7_def
      omitempty_def zero_common_def store_string_def store_int_ptr_def in_int64_def)

lemma unmarshal_request_ping7: "unmarshal_request (Some (marshal_request ping7)) = Some ping7"
  by (simp add: unmarshal_request_def unmarshal_struct_def marshal_request_def ping7_def
      omitempty_def zero_request_def store_string_def store_int_def in_int64_def)

lemma boot_served:
  "tr (boot served) = served" "parked (boot served) = []" "returned (boot served) = []"
  "panics (boot served) = 0" "responseMap served = Map.empty" "chans served = 0"
  "messageHandler served" "handled served = []"
  by (simp_all add: boot_def served_def SetMessageHandler_def newBaseTransport_def)

lemma findKey_empty: "findKey Map.empty 0 = 0"
  by (simp add: findKey_here)

theorem request_is_correlated_witness:
  "returned (exec (exec (boot served) (CallEnvelope (Some (marshal_request ping7))))
                  (CallSend (NewBaseMessageResponse (pong 0))))
     = [Msg (Some (NewBaseMessageResponse (pong 7))), Nil] \<and>
   responseMap (tr (exec (exec (boot served) (CallEnvelope (Some (marshal_request ping7))))
                  (CallSend (NewBaseMessageResponse (pong 0))))) = Map.empty \<and>
   handled (tr (exec (boot served) (CallEnvelope (Some (marshal_request ping7)))))
     = [NewBaseMessageRequest (ping7\<lparr>rq_Id := 0\<rparr>)] \<and>
   parked (exec (boot served) (CallEnvelope (Some (marshal_request ping7))))
     = [Receive 0 (RestoreChecked 0 7)] \<and>
   returned (exec (exec (boot served) (CallHandleMessage (Some (marshal_request ping7))))
                  (CallSend (NewBaseMessageResponse (pong 0))))
     = [Msg (Some (NewBaseMessageResponse (pong 7))), Nil]"
proof -
  have free: "\<exists>k. 0 \<le> k \<and> k < 1000000 \<and> responseMap (tr (boot served)) k = None"
    by (intro exI[of _ 0]) (simp add: boot_served)
  have idle: "\<forall>p \<in> set (parked (boot served)).
      \<not> sender_on (chans (tr (boot served))) p \<and> \<not> receiver_on (chans (tr (boot served))) p"
    by (simp add: boot_served)
  have key: "(0::int) = findKey (responseMap (tr (boot served))) 0"
    by (simp add: boot_served findKey_empty)
  have r: "rs_Id (pong 0) = 0" by (simp add: pong_def)
  have e: "(CallEnvelope (Some (marshal_request ping7)) = CallEnvelope (Some (marshal_request ping7)) \<and>
       unmarshal_common (Some (marshal_request ping7)) =
         Some \<lparr>cm_Id = Some 7, cm_Jsonrpc = ''2.0'', cm_Method = ''ping'',
               cm_Params = None, cm_Result = None, cm_Error = None\<rparr> \<and>
       cm_Method \<lparr>cm_Id = Some 7, cm_Jsonrpc = ''2.0'', cm_Method = ''ping'',
               cm_Params = None, cm_Result = None, cm_Error = None\<rparr> \<noteq> [] \<and>
       cm_Id \<lparr>cm_Id = Some 7, cm_Jsonrpc = ''2.0'', cm_Method = ''ping'',
               cm_Params = None, cm_Result = None, cm_Error = None\<rparr> = Some 7 \<and>
       ping7 = \<lparr>rq_Id = 7,
          rq_Jsonrpc = cm_Jsonrpc \<lparr>cm_Id = Some 7, cm_Jsonrpc = ''2.0'', cm_Method = ''ping'',
               cm_Params = None, cm_Result = None, cm_Error = None\<rparr>,
          rq_Method = cm_Method \<lparr>cm_Id = Some 7, cm_Jsonrpc = ''2.0'', cm_Method = ''ping'',
               cm_Params = None, cm_Result = None, cm_Error = None\<rparr>,
          rq_Params = cm_Params \<lparr>cm_Id = Some 7, cm_Jsonrpc = ''2.0'', cm_Method = ''ping'',
               cm_Params = None, cm_Result = None, cm_Error = None\<rparr>\<rparr> \<and>
       RestoreChecked 0 7 = RestoreChecked 0 7)
     \<or> (CallEnvelope (Some (marshal_request ping7)) = CallHandleMessage (Some (marshal_request ping7)) \<and>
        unmarshal_request (Some (marshal_request ping7)) = Some ping7 \<and>
        7 = rq_Id ping7 \<and> RestoreChecked 0 7 = Restore 0 (Some 7))"
    by (simp add: unmarshal_ping7) (simp add: ping7_def)
  have x: "(CallHandleMessage (Some (marshal_request ping7)) = CallEnvelope (Some (marshal_request ping7)) \<and>
       unmarshal_common (Some (marshal_request ping7)) = Some zero_common \<and>
       cm_Method zero_common \<noteq> [] \<and> cm_Id zero_common = Some 7 \<and>
       ping7 = \<lparr>rq_Id = 7, rq_Jsonrpc = cm_Jsonrpc zero_common, rq_Method = cm_Method zero_common,
                 rq_Params = cm_Params zero_common\<rparr> \<and>
       Restore 0 (Some 7) = RestoreChecked 0 7)
     \<or> (CallHandleMessage (Some (marshal_request ping7)) = CallHandleMessage (Some (marshal_request ping7)) \<and>
        unmarshal_request (Some (marshal_request ping7)) = Some ping7 \<and>
        7 = rq_Id ping7 \<and> Restore 0 (Some 7) = Restore 0 (Some 7))"
    by (simp add: unmarshal_request_ping7) (simp add: ping7_def)
  have p: "pong 0\<lparr>rs_Id := 7\<rparr> = pong 7" by (simp add: pong_def)
  show ?thesis
    using request_is_correlated [OF free idle key e r] request_is_correlated [OF free idle key x r]
    by (simp add: boot_served p)
qed

text \<open>
  C1 (the code does not do this). A request is parked on slot 0 and \<^verbatim>\<open>Send\<close> is
  called with an error message whose id is the slot: \<^verbatim>\<open>Send\<close> reads
  \<^verbatim>\<open>message.JsonRpcResponse.Id\<close>, which is nil for an error message, and panics.
  Nothing is delivered, the request stays parked and slot 0 stays in the response map,
  with \<^verbatim>\<open>handleMessage\<close> and with \<^verbatim>\<open>HandleMessage\<close> alike.
\<close>

theorem error_reply_panics:
  "panics (run (boot served) [CallEnvelope (Some (marshal_request ping7)),
                              CallSend (NewBaseMessageError (failure 0))]) = 1 \<and>
   returned (run (boot served) [CallEnvelope (Some (marshal_request ping7)),
                              CallSend (NewBaseMessageError (failure 0))]) = [] \<and>
   parked (run (boot served) [CallEnvelope (Some (marshal_request ping7)),
                              CallSend (NewBaseMessageError (failure 0))])
     = [Receive 0 (RestoreChecked 0 7)] \<and>
   responseMap (tr (run (boot served) [CallEnvelope (Some (marshal_request ping7)),
                              CallSend (NewBaseMessageError (failure 0))])) 0 = Some 0 \<and>
   panics (run (boot served) [CallHandleMessage (Some (marshal_request ping7)),
                              CallSend (NewBaseMessageError (failure 0))]) = 1 \<and>
   parked (run (boot served) [CallHandleMessage (Some (marshal_request ping7)),
                              CallSend (NewBaseMessageError (failure 0))])
     = [Receive 0 (Restore 0 (Some 7))]"
  by code_simp

section \<open>\<^verbatim>\<open>Close\<close>\<close>

text \<open>
  C6 (as amended). \<^verbatim>\<open>Close\<close> calls the close handler when one is installed and returns
  nil. It sends on no channel and does not touch the response map: every parked call
  stays parked.
\<close>

theorem Close_leaves_callers_parked:
  "parked (exec s CallClose) = parked s \<and>
   responseMap (tr (exec s CallClose)) = responseMap (tr s) \<and>
   returned (exec s CallClose) = returned s @ [Nil] \<and>
   panics (exec s CallClose) = panics s \<and>
   closed (tr (exec s CallClose)) = (if closeHandler (tr s) then Suc (closed (tr s)) else closed (tr s))"
  by (simp add: exec_def Close_def settle_def finished_def)

text \<open>
  C6 as stated fails: a request is parked, \<^verbatim>\<open>Close\<close> is called and returns, and the
  request is still parked on its channel, with no error returned to it.
\<close>

theorem Close_unblocks_nobody_counterexample:
  "parked (run (boot served) [CallHandleMessage (Some (marshal_request ping7)), CallClose])
     = [Receive 0 (Restore 0 (Some 7))] \<and>
   returned (run (boot served) [CallHandleMessage (Some (marshal_request ping7)), CallClose]) = [Nil] \<and>
   responseMap (tr (run (boot served) [CallHandleMessage (Some (marshal_request ping7)), CallClose]))
     = [0 \<mapsto> 0]"
proof -
  have a: "allocate served = (served\<lparr>responseMap := [0 \<mapsto> 0], chans := 1\<rparr>, 0)"
    by (simp add: allocate_eq boot_served findKey_empty)
  have 1: "exec (boot served) (CallHandleMessage (Some (marshal_request ping7))) =
     (boot served)\<lparr>tr := callHandler (served\<lparr>responseMap := [0 \<mapsto> 0], chans := 1\<rparr>)
                          (NewBaseMessageRequest (ping7\<lparr>rq_Id := 0\<rparr>)),
                   parked := [Receive 0 (Restore 0 (Some 7))]\<rparr>"
    unfolding exec_def perform.simps HandleMessage_def unmarshal_request_ping7 a
    by (simp add: boot_served a await_def callHandler_def settle_def finished_def ping7_def)
  show ?thesis
    unfolding run_def foldl.simps 1
    by (simp add: exec_def Close_def settle_def finished_def boot_served callHandler_def)
qed

section \<open>What \<^verbatim>\<open>handleMessage\<close> does with each shape of envelope\<close>

lemma handleMessage_invalid:
  "unmarshal_common b = None \<Longrightarrow>
   handleMessage t b = (fst (allocate t), Return (Err FailedToParseJSON))"
  by (simp add: handleMessage_def split: prod.splits)

lemma handleMessage_notification:
  assumes "unmarshal_common b = Some tmp" "cm_Method tmp \<noteq> []" "cm_Id tmp = None"
  shows "handleMessage t b =
     (callHandler (fst (allocate t))
        (NewBaseMessageNotification \<lparr>nt_Jsonrpc = cm_Jsonrpc tmp, nt_Method = cm_Method tmp,
                                      nt_Params = cm_Params tmp\<rparr>),
      Return (Msg None))"
  using assms by (simp add: handleMessage_def split: prod.splits)

lemma handleMessage_response:
  assumes "unmarshal_common b = Some tmp" "cm_Method tmp = []" "cm_Id tmp = Some i"
    "cm_Result tmp \<noteq> None"
  shows "handleMessage t b =
     (fst (allocate t),
      case responseMap (fst (allocate t)) i of
        Some c \<Rightarrow> Deliver c (NewBaseMessageResponse \<lparr>rs_Id = i, rs_Jsonrpc = cm_Jsonrpc tmp,
                                                      rs_Result = cm_Result tmp\<rparr>) (Msg None)
      | None \<Rightarrow> Return (Err (NoMatchingRequestForResponse i)))"
  using assms by (auto simp: handleMessage_def split: prod.splits option.splits)

lemma handleMessage_error:
  assumes "unmarshal_common b = Some tmp" "cm_Method tmp = []" "cm_Id tmp = Some i"
    "cm_Result tmp = None" "cm_Error tmp = Some e"
  shows "handleMessage t b =
     (fst (allocate t),
      case responseMap (fst (allocate t)) i of
        Some c \<Rightarrow> Deliver c (NewBaseMessageError \<lparr>er_Error = e, er_Id = i,
                                                   er_Jsonrpc = cm_Jsonrpc tmp\<rparr>) (Msg None)
      | None \<Rightarrow> Return (Err (NoMatchingRequestForErrorResponse i)))"
  using assms by (auto simp: handleMessage_def split: prod.splits option.splits)

lemma handleMessage_unrecognized:
  assumes "unmarshal_common b = Some tmp" "cm_Method tmp = []"
    "cm_Id tmp = None \<or> (cm_Result tmp = None \<and> cm_Error tmp = None)"
  shows "handleMessage t b = (fst (allocate t), Return (Err UnrecognizedType))"
  using assms by (auto simp: handleMessage_def split: prod.splits option.splits)





section \<open>Decoding what was encoded\<close>








section \<open>Discrimination of the four kinds\<close>





section \<open>Bodies that are not requests\<close>




section \<open>Encoding, then decoding\<close>

text \<open>
  \<^verbatim>\<open>handleMessage\<close> is \<open>decode\<close> followed by the bridge: a decoding error is
  returned; a request goes to the handler under the allocated slot, its own id kept for
  the reply; a notification goes to the handler; a response or an error is offered on
  the channel registered under its id.
\<close>

lemma handleMessage_decode:
  "handleMessage t b =
     (case decode b of
        Inl e \<Rightarrow> (fst (allocate t), Return (Err e))
      | Inr m \<Rightarrow>
          (case JsonRpcRequest m of
             Some q \<Rightarrow>
               (callHandler (fst (allocate t)) (NewBaseMessageRequest (q\<lparr>rq_Id := snd (allocate t)\<rparr>)),
                Receive (chans t) (RestoreChecked (snd (allocate t)) (rq_Id q)))
           | None \<Rightarrow>
               (case JsonRpcNotification m of
                  Some n \<Rightarrow> (callHandler (fst (allocate t)) m, Return (Msg None))
                | None \<Rightarrow>
                    (case JsonRpcResponse m of
                       Some r \<Rightarrow>
                         (fst (allocate t),
                          case responseMap (fst (allocate t)) (rs_Id r) of
                            Some c \<Rightarrow> Deliver c m (Msg None)
                          | None \<Rightarrow> Return (Err (NoMatchingRequestForResponse (rs_Id r))))
                     | None \<Rightarrow>
                         (case JsonRpcError m of
                            Some e \<Rightarrow>
                              (fst (allocate t),
                               case responseMap (fst (allocate t)) (er_Id e) of
                                 Some c \<Rightarrow> Deliver c m (Msg None)
                               | None \<Rightarrow> Return (Err (NoMatchingRequestForErrorResponse (er_Id e))))
                          | None \<Rightarrow> (fst (allocate t), Panic))))))"
proof (cases "unmarshal_common b")
  case None
  then show ?thesis by (simp add: handleMessage_invalid decode_def)
next
  case (Some tmp)
  show ?thesis
  proof (cases "cm_Id tmp")
    case None
    show ?thesis
    proof (cases "cm_Method tmp = []")
      case True
      with handleMessage_unrecognized[OF Some, of t] None Some show ?thesis
        by (simp add: decode_def)
    next
      case False
      with handleMessage_notification[OF Some, of t] None Some show ?thesis
        by (simp add: decode_def NewBaseMessageNotification_def)
    qed
  next
    case (Some i)
    note i = Some
    show ?thesis
    proof (cases "cm_Method tmp = []")
      case False
      with handleMessage_request[OF \<open>unmarshal_common b = Some tmp\<close>, of i t] i
        \<open>unmarshal_common b = Some tmp\<close>
      show ?thesis by (simp add: decode_def NewBaseMessageRequest_def)
    next
      case True
      note m = True
      show ?thesis
      proof (cases "cm_Result tmp")
        case (Some x)
        with handleMessage_response[OF \<open>unmarshal_common b = Some tmp\<close>, of i t] i m
          \<open>unmarshal_common b = Some tmp\<close>
        show ?thesis by (simp add: decode_def NewBaseMessageResponse_def cong: option.case_cong)
      next
        case None
        note r = None
        show ?thesis
        proof (cases "cm_Error tmp")
          case None
          with handleMessage_unrecognized[OF \<open>unmarshal_common b = Some tmp\<close>, of t] i m r
            \<open>unmarshal_common b = Some tmp\<close>
          show ?thesis by (simp add: decode_def)
        next
          case (Some e)
          with handleMessage_error[OF \<open>unmarshal_common b = Some tmp\<close>, of i e t] i m r
            \<open>unmarshal_common b = Some tmp\<close>
          show ?thesis by (simp add: decode_def NewBaseMessageError_def cong: option.case_cong)
        qed
      qed
    qed
  qed
qed




section \<open>The HTTP endpoint\<close>





section \<open>Listing the registered tools\<close>

lemma map_insort_key: "map f (insort_key f x xs) = insort (f x) (map f xs)"
  by (induction xs) auto

lemma map_sort_key: "map f (sort_key f xs) = sort (map f xs)"
  by (induction xs) (simp_all add: map_insort_key)

lemma dropWhile_sorted_filter:
  "sorted (map f xs) \<Longrightarrow> dropWhile (\<lambda>x. f x \<le> c) xs = filter (\<lambda>x. c < f x) xs"
proof (induction xs)
  case Nil
  show ?case by simp
next
  case (Cons x xs)
  show ?case
  proof (cases "f x \<le> c")
    case True
    with Cons show ?thesis by (simp add: not_less)
  next
    case False
    with Cons.prems have "\<forall>y \<in> set xs. c < f y" by auto
    then have "filter (\<lambda>x. c < f x) xs = xs" by simp
    with False show ?thesis by simp
  qed
qed

lemma keys_after_cursor:
  "map fst (after_cursor cursor (sort_key fst reg)) = keys_after cursor reg"
proof (cases cursor)
  case None
  then show ?thesis by (simp add: after_cursor_def keys_after_def map_sort_key)
next
  case (Some c)
  have "sorted (map fst (sort_key fst reg))" by (rule sorted_sort_key)
  then have "dropWhile (\<lambda>kv. fst kv \<le> c) (sort_key fst reg) =
             filter (\<lambda>kv. c < fst kv) (sort_key fst reg)"
    by (rule dropWhile_sorted_filter)
  then show ?thesis
    using Some by (simp add: after_cursor_def keys_after_def filter_map o_def map_sort_key[symmetric])
qed

lemma set_after_cursor: "set (after_cursor cursor (sort_key fst reg)) \<subseteq> set reg"
proof (cases cursor)
  case None
  then show ?thesis by (simp add: after_cursor_def)
next
  case (Some c)
  then show ?thesis using set_dropWhileD[of _ "\<lambda>kv. fst kv \<le> c" "sort_key fst reg"]
    by (auto simp: after_cursor_def)
qed

lemma page_of_limit:
  assumes n: "0 < n"
  shows "page_of (Some n) rest =
     \<lparr>Tools = map snd (take n rest),
      NextCursor = (if n < length rest then Some (last (map fst (take n rest))) else None)\<rparr>"
proof (cases "take n rest = []")
  case True
  with n have "rest = []" by (cases rest) auto
  then show ?thesis by (simp add: page_of_def)
next
  case False
  then obtain kv ys where r: "rev (take n rest) = kv # ys" by (cases "rev (take n rest)") auto
  then have "take n rest = rev ys @ [kv]" by (metis rev_rev_ident rev.simps(2))
  then have "last (map fst (take n rest)) = fst kv" by simp
  with r show ?thesis by (simp add: page_of_def)
qed

text \<open>
  C8. With a positive limit \<open>n\<close>: a cursor that is no registered key fails with the
  invalid-cursor error; otherwise the keys of the returned descriptors are the first
  \<open>n\<close> of the registered keys that are strictly greater than the cursor (all keys
  without a cursor), in lexicographic order, the descriptors being the registered ones;
  the next cursor is the last returned key when more than \<open>n\<close> such keys exist and is
  absent otherwise.
\<close>

theorem handleListTools_pages:
  "0 < n \<longrightarrow>
     (cursor \<noteq> None \<and> cursor \<notin> Some ` fst ` set reg \<longrightarrow>
        handleListTools reg (Some n) cursor = Inl InvalidCursorError) \<and>
     (cursor = None \<or> cursor \<in> Some ` fst ` set reg \<longrightarrow>
        (\<exists>page. handleListTools reg (Some n) cursor =
                  Inr \<lparr>Tools = map snd page,
                       NextCursor = (if n < length (keys_after cursor reg)
                                     then Some (last (map fst page)) else None)\<rparr> \<and>
                set page \<subseteq> set reg \<and>
                map fst page = take n (keys_after cursor reg))) \<and>
     sorted (keys_after cursor reg) \<and>
     set (keys_after cursor reg) =
       {k \<in> fst ` set reg. case cursor of None \<Rightarrow> True | Some c \<Rightarrow> c < k}"
proof (intro impI conjI)
  assume "0 < n" and "cursor \<noteq> None \<and> cursor \<notin> Some ` fst ` set reg"
  then show "handleListTools reg (Some n) cursor = Inl InvalidCursorError"
    by (cases cursor) (auto simp: handleListTools_def)
next
  assume n: "0 < n" and c: "cursor = None \<or> cursor \<in> Some ` fst ` set reg"
  let ?rest = "after_cursor cursor (sort_key fst reg)"
  have h: "handleListTools reg (Some n) cursor = Inr (page_of (Some n) ?rest)"
    using c by (cases cursor) (auto simp: handleListTools_def after_cursor_def)
  have l: "length ?rest = length (keys_after cursor reg)"
    using keys_after_cursor[of cursor reg] by (metis length_map)
  have s: "set (take n ?rest) \<subseteq> set reg"
    using set_after_cursor[of cursor reg] set_take_subset[of n ?rest] by blast
  have m: "map fst (take n ?rest) = take n (keys_after cursor reg)"
    by (simp add: take_map[symmetric] keys_after_cursor)
  show "\<exists>page. handleListTools reg (Some n) cursor =
                  Inr \<lparr>Tools = map snd page,
                       NextCursor = (if n < length (keys_after cursor reg)
                                     then Some (last (map fst page)) else None)\<rparr> \<and>
                set page \<subseteq> set reg \<and>
                map fst page = take n (keys_after cursor reg)"
    by (rule exI[of _ "take n ?rest"]) (simp add: h page_of_limit[OF n] l s m)
next
  show "sorted (keys_after cursor reg)"
    unfolding keys_after_def using sorted_filter[of "\<lambda>x. x" "sort (map fst reg)"] by simp
next
  show "set (keys_after cursor reg) =
       {k \<in> fst ` set reg. case cursor of None \<Rightarrow> True | Some c \<Rightarrow> c < k}"
    by (auto simp: keys_after_def)
qed

theorem handleListTools_pages_witness:
  "(0::nat) < 2 \<and>
   handleListTools five_tools (Some 2) None =
     Inr \<lparr>Tools = [\<lparr>td_Name = ''a-tool'', td_Description = ''Test tool a-tool''\<rparr>,
                   \<lparr>td_Name = ''b-tool'', td_Description = ''Test tool b-tool''\<rparr>],
          NextCursor = Some ''b-tool''\<rparr> \<and>
   handleListTools five_tools (Some 2) (Some ''b-tool'') =
     Inr \<lparr>Tools = [\<lparr>td_Name = ''c-tool'', td_Description = ''Test tool c-tool''\<rparr>,
                   \<lparr>td_Name = ''d-tool'', td_Description = ''Test tool d-tool''\<rparr>],
          NextCursor = Some ''d-tool''\<rparr> \<and>
   handleListTools five_tools (Some 2) (Some ''d-tool'') =
     Inr \<lparr>Tools = [\<lparr>td_Name = ''e-tool'', td_Description = ''Test tool e-tool''\<rparr>],
          NextCursor = None\<rparr> \<and>
   handleListTools five_tools (Some 2) (Some ''invalid-cursor'') = Inl InvalidCursorError"
proof -
  have k: "Some ''invalid-cursor'' \<noteq> None \<and> Some ''invalid-cursor'' \<notin> Some ` fst ` set five_tools"
    by (simp add: five_tools_def RegisterTool_def)
  from handleListTools_pages [of 2 "Some ''invalid-cursor''" five_tools] k
  have 4: "handleListTools five_tools (Some 2) (Some ''invalid-cursor'') = Inl InvalidCursorError"
    by simp
  have 1: "handleListTools five_tools (Some 2) None =
     Inr \<lparr>Tools = [\<lparr>td_Name = ''a-tool'', td_Description = ''Test tool a-tool''\<rparr>,
                   \<lparr>td_Name = ''b-tool'', td_Description = ''Test tool b-tool''\<rparr>],
          NextCursor = Some ''b-tool''\<rparr>" by code_simp
  have 2: "handleListTools five_tools (Some 2) (Some ''b-tool'') =
     Inr \<lparr>Tools = [\<lparr>td_Name = ''c-tool'', td_Description = ''Test tool c-tool''\<rparr>,
                   \<lparr>td_Name = ''d-tool'', td_Description = ''Test tool d-tool''\<rparr>],
          NextCursor = Some ''d-tool''\<rparr>" by code_simp
  have 3: "handleListTools five_tools (Some 2) (Some ''d-tool'') =
     Inr \<lparr>Tools = [\<lparr>td_Name = ''e-tool'', td_Description = ''Test tool e-tool''\<rparr>],
          NextCursor = None\<rparr>" by code_simp
  from 1 2 3 4 show ?thesis by simp
qed

end
